theory Spec2Isabelle
  imports Complex_Main "HOL-Library.List_Lexorder" "HOL-Library.Char_ord"
begin

section \<open>The Bookmark Store\<close>

text \<open>
  The tables the bookmarks router reads and writes. The schema module is not among the
  sources; the columns are the ones the router and the specification name. Every table is
  a list of rows in storage order. A query without an \<open>orderBy\<close> that looks rows up by the
  values of a key (\<open>inArray\<close> on the bookmark id, on the tag name of one owner) is answered
  through the index of that key and returns its rows in the order of the key; strings are
  compared byte by byte. Strings are the bytes of their UTF-8 encoding. Dates are
  milliseconds since the epoch.
\<close>

datatype taggingStatus = Pending | Success | Failure

datatype attachedBy = Human | AI

datatype assetType = Image | Pdf

record bookmark =
  bookmark_id :: string
  bookmark_userId :: string
  bookmark_createdAt :: int
  bookmark_archived :: bool
  bookmark_favourited :: bool
  bookmark_note :: "string option"
  bookmark_taggingStatus :: "taggingStatus option"

record bookmarkLink =
  link_id :: string
  link_url :: string
  link_title :: "string option"
  link_description :: "string option"
  link_imageUrl :: "string option"
  link_crawledAt :: "int option"

record bookmarkText =
  text_id :: string
  text_text :: "string option"

record bookmarkAsset =
  asset_id :: string
  asset_assetType :: assetType
  asset_assetId :: string
  asset_content :: "string option"
  asset_info :: "string option"
  asset_metadata :: "string option"

record bookmarkTag =
  tag_id :: string
  tag_name :: string
  tag_userId :: string

record tagOnBookmark =
  tob_bookmarkId :: string
  tob_tagId :: string
  tob_attachedBy :: attachedBy
  tob_userId :: string

record bookmarkInList =
  bil_bookmarkId :: string
  bil_listId :: string

record database =
  bookmarks :: "bookmark list"
  bookmarkLinks :: "bookmarkLink list"
  bookmarkTexts :: "bookmarkText list"
  bookmarkAssets :: "bookmarkAsset list"
  bookmarkTags :: "bookmarkTag list"
  tagsOnBookmarks :: "tagOnBookmark list"
  bookmarksInLists :: "bookmarkInList list"

section \<open>Effects outside the database\<close>

text \<open>
  Everything a procedure does besides its database statements is appended to a log, in
  the order the procedure does it: the begin and the commit of a transaction, a job added
  to a queue, an asset released, a query sent to the search engine.
\<close>

datatype queue = LinkCrawlerQueue | OpenAIQueue | SearchIndexingQueue

datatype indexingType = Index | Delete

record payload =
  bookmarkId :: string
  indexing :: "indexingType option"

record searchParams =
  filter_param :: "string list"
  showRankingScore :: bool
  attributesToRetrieve :: "string list"
  sort_param :: "string list"

datatype event =
    TxBegin
  | TxCommit
  | Add queue string payload
  | DeleteAsset string string
  | Search string searchParams

record world =
  db :: database
  effects :: "event list"

datatype code = UNAUTHORIZED | NOT_FOUND | FORBIDDEN | BAD_REQUEST | INTERNAL_SERVER_ERROR

text \<open>
  What a procedure can throw: a \<open>TRPCError\<close> with its code and message (the code's name
  when the source gives no message), a constraint the database refuses, an error of the
  query builder, a failed \<open>invariant\<close>, and the \<open>TypeError\<close> of a property read on
  \<open>undefined\<close>.
\<close>

datatype error =
    TRPCError code string
  | ConstraintError string
  | QueryBuilderError string
  | InvariantError string
  | TypeError string

record Context =
  ctx_user :: "string option"

record hit =
  hit_id :: string
  hit_rankingScore :: rat

text \<open>
  What a call takes from its surroundings: the identifiers \<open>createId\<close> generates (the
  k-th one of the call), the clock behind the \<open>createdAt\<close> default, the search engine
  client (absent when search is not configured; a configured client answers a query with
  any list of hits), and the constant \<open>DEFAULT_NUM_BOOKMARKS_PER_PAGE\<close>, whose
  declaration is not among the sources.
\<close>

record environment =
  createId :: "nat \<Rightarrow> string"
  now :: int
  searchIdxClient :: "(string \<Rightarrow> searchParams \<Rightarrow> hit list) option"
  DEFAULT_NUM_BOOKMARKS_PER_PAGE :: nat

definition add :: "queue \<Rightarrow> string \<Rightarrow> payload \<Rightarrow> world \<Rightarrow> world" where
  \<comment> \<open>Modelled from the spec: the queue module is not among the sources;
      \<open>enqueue(topic, payload)\<close> is fire-and-forget from the caller's perspective.\<close>
  "add q name p w = w\<lparr>effects := effects w @ [Add q name p]\<rparr>"

definition deleteAsset :: "string \<Rightarrow> string \<Rightarrow> world \<Rightarrow> world" where
  \<comment> \<open>Modelled from the spec: the asset store is not among the sources;
      \<open>release(ownerId, assetId)\<close> is best-effort and the absence of the blob is not an error.\<close>
  "deleteAsset userId assetId w = w\<lparr>effects := effects w @ [DeleteAsset userId assetId]\<rparr>"


fun releases :: "event list \<Rightarrow> (string \<times> string) list" where
  "releases [] = []"
| "releases (DeleteAsset u a # es) = (u, a) # releases es"
| "releases (_ # es) = releases es"

text \<open>
  \<open>db.transaction\<close> with an \<open>async\<close> callback. The driver is synchronous (a statement
  answers with its result at once, as \<open>deleted.changes\<close> in \<open>deleteBookmark\<close> shows):
  it begins the transaction, calls the callback, which hands back its promise at its first
  \<open>await\<close>, before any of its statements has run, and commits. The statements of the
  callback then run one after the other on the database, outside the transaction: each
  statement that has run stays when a later one throws. The body gives the database it
  has reached together with its result or its error.
\<close>

definition transaction ::
  "(database \<Rightarrow> (error + 'a) \<times> database) \<Rightarrow> world \<Rightarrow> (error + 'a) \<times> world" where
  "transaction body w =
     (case body (db w) of
        (r, d) \<Rightarrow> (r, w\<lparr>db := d, effects := effects w @ [TxBegin, TxCommit]\<rparr>))"

section \<open>The public schema\<close>

datatype zBookmarkContent =
    LinkContent bookmarkLink
  | TextContent string
  | AssetContent assetType string
  | UnknownContent

record zBookmarkTags =
  ztag_attachedBy :: attachedBy
  ztag_tag :: "bookmarkTag option"

record zBookmark =
  rest :: bookmark
  content :: zBookmarkContent
  tags :: "zBookmarkTags list"

text \<open>
  The result of the relational query \<open>findFirst\<close>/\<open>findMany\<close> with
  \<open>tagsOnBookmarks: {with: {tag}}, link, text, asset\<close>: the bookmark's columns, its
  attachment rows each with its tag row, and the first row of each variant table.
\<close>

record bookmarkQueryReturnType =
  q_rest :: bookmark
  q_tagsOnBookmarks :: "(tagOnBookmark \<times> bookmarkTag option) list"
  q_link :: "bookmarkLink option"
  q_text :: "bookmarkText option"
  q_asset :: "bookmarkAsset option"

definition withRelations :: "database \<Rightarrow> bookmark \<Rightarrow> bookmarkQueryReturnType" where
  "withRelations d b =
     \<lparr>q_rest = b,
      q_tagsOnBookmarks =
        map (\<lambda>t. (t, find (\<lambda>g. tag_id g = tob_tagId t) (bookmarkTags d)))
          (filter (\<lambda>t. tob_bookmarkId t = bookmark_id b) (tagsOnBookmarks d)),
      q_link = find (\<lambda>l. link_id l = bookmark_id b) (bookmarkLinks d),
      q_text = find (\<lambda>t. text_id t = bookmark_id b) (bookmarkTexts d),
      q_asset = find (\<lambda>a. asset_id a = bookmark_id b) (bookmarkAssets d)\<rparr>"

definition toZodSchema :: "bookmarkQueryReturnType \<Rightarrow> zBookmark" where
  "toZodSchema bm =
     \<lparr>rest = q_rest bm,
      content =
        (case q_link bm of
           Some link \<Rightarrow> LinkContent link
         | None \<Rightarrow>
            (case q_text bm of
               Some t \<Rightarrow> TextContent (case text_text t of Some s \<Rightarrow> s | None \<Rightarrow> [])
             | None \<Rightarrow>
                (case q_asset bm of
                   Some asset \<Rightarrow> AssetContent (asset_assetType asset) (asset_assetId asset)
                 | None \<Rightarrow> UnknownContent))),
      tags = map (\<lambda>(t, g). \<lparr>ztag_attachedBy = tob_attachedBy t, ztag_tag = g\<rparr>)
               (q_tagsOnBookmarks bm)\<rparr>"

section \<open>The ownership gate\<close>

definition ensureBookmarkOwnership ::
  "Context \<Rightarrow> string \<Rightarrow> (world \<Rightarrow> (error + 'a) \<times> world) \<Rightarrow> world \<Rightarrow> (error + 'a) \<times> world" where
  "ensureBookmarkOwnership ctx bid next w =
     (let bm = find (\<lambda>b. bookmark_id b = bid) (bookmarks (db w)) in
      case ctx_user ctx of
        None \<Rightarrow> (Inl (TRPCError UNAUTHORIZED ''User is not authorized''), w)
      | Some uid \<Rightarrow>
         (case bm of
            None \<Rightarrow> (Inl (TRPCError NOT_FOUND ''Bookmark not found''), w)
          | Some b \<Rightarrow>
             if bookmark_userId b \<noteq> uid
             then (Inl (TRPCError FORBIDDEN ''User is not allowed to access resource''), w)
             else next w))"

definition authedProcedure ::
  "Context \<Rightarrow> (string \<Rightarrow> world \<Rightarrow> (error + 'a) \<times> world) \<Rightarrow> world \<Rightarrow> (error + 'a) \<times> world" where
  \<comment> \<open>Modelled from the spec: the procedure builder is not among the sources; authentication
      is an external collaborator, and a call without a user never reaches the procedure.\<close>
  "authedProcedure ctx body w =
     (case ctx_user ctx of
        None \<Rightarrow> (Inl (TRPCError UNAUTHORIZED ''UNAUTHORIZED''), w)
      | Some uid \<Rightarrow> body uid w)"

section \<open>createBookmark\<close>

datatype zNewBookmarkRequest =
    LinkRequest string
  | TextRequest string
  | AssetRequest assetType string
  | UnknownRequest

text \<open>
  \<open>String.prototype.trim\<close> removes the white space and the line terminators of
  ECMAScript from both ends: U+0009 to U+000D, U+0020, U+00A0, U+1680, U+2000 to U+200A,
  U+2028, U+2029, U+202F, U+205F, U+3000 and U+FEFF, here as their UTF-8 encodings.
\<close>

definition whiteSpace :: "string list" where
  "whiteSpace =
     [[CHR 0x09], [CHR 0x0A], [CHR 0x0B], [CHR 0x0C], [CHR 0x0D], [CHR 0x20],
      [CHR 0xC2, CHR 0xA0], [CHR 0xE1, CHR 0x9A, CHR 0x80],
      [CHR 0xE2, CHR 0x80, CHR 0x80], [CHR 0xE2, CHR 0x80, CHR 0x81],
      [CHR 0xE2, CHR 0x80, CHR 0x82], [CHR 0xE2, CHR 0x80, CHR 0x83],
      [CHR 0xE2, CHR 0x80, CHR 0x84], [CHR 0xE2, CHR 0x80, CHR 0x85],
      [CHR 0xE2, CHR 0x80, CHR 0x86], [CHR 0xE2, CHR 0x80, CHR 0x87],
      [CHR 0xE2, CHR 0x80, CHR 0x88], [CHR 0xE2, CHR 0x80, CHR 0x89],
      [CHR 0xE2, CHR 0x80, CHR 0x8A], [CHR 0xE2, CHR 0x80, CHR 0xA8],
      [CHR 0xE2, CHR 0x80, CHR 0xA9], [CHR 0xE2, CHR 0x80, CHR 0xAF],
      [CHR 0xE2, CHR 0x81, CHR 0x9F], [CHR 0xE3, CHR 0x80, CHR 0x80],
      [CHR 0xEF, CHR 0xBB, CHR 0xBF]]"

text \<open>Removes from the start of a string every leading occurrence of one of the given words.\<close>

fun stripStart :: "string list \<Rightarrow> string \<Rightarrow> string" where
  "stripStart ws [] = []"
| "stripStart ws (c # cs) =
     (case find (\<lambda>p. p \<noteq> [] \<and> take (length p) (c # cs) = p) ws of
        None \<Rightarrow> c # cs
      | Some p \<Rightarrow> stripStart ws (drop (length p - 1) cs))"

definition trim :: "string \<Rightarrow> string" where
  "trim s = rev (stripStart (map rev whiteSpace) (rev (stripStart whiteSpace s)))"

text \<open>
  The inserts. The schema module is not among the sources: the key of each table and the
  defaults of a new bookmark row are the ones the specification gives.
\<close>

definition insertBookmark :: "environment \<Rightarrow> string \<Rightarrow> database \<Rightarrow> error + (bookmark \<times> database)" where
  \<comment> \<open>Modelled from the spec: the schema is not among the sources; a bookmark has the
      identity \<open>id\<close> (a row whose id is taken is refused) and is created with a generated
      id, the current time as \<open>createdAt\<close>, both flags off, no note and
      \<open>taggingStatus = pending\<close>.\<close>
  "insertBookmark env uid d =
     (let row = \<lparr>bookmark_id = createId env 0, bookmark_userId = uid,
                 bookmark_createdAt = now env, bookmark_archived = False,
                 bookmark_favourited = False, bookmark_note = None,
                 bookmark_taggingStatus = Some Pending\<rparr>
      in if bookmark_id row \<in> set (map bookmark_id (bookmarks d))
         then Inl (ConstraintError ''bookmarks.id'')
         else Inr (row, d\<lparr>bookmarks := bookmarks d @ [row]\<rparr>))"

definition insertBookmarkLink :: "bookmarkLink \<Rightarrow> database \<Rightarrow> error + (bookmarkLink \<times> database)" where
  \<comment> \<open>Modelled from the spec: the schema is not among the sources; at most one link
      row is attached to a bookmark id (a row whose id is taken is refused).\<close>
  "insertBookmarkLink row d =
     (if link_id row \<in> set (map link_id (bookmarkLinks d))
      then Inl (ConstraintError ''bookmarkLinks.id'')
      else Inr (row, d\<lparr>bookmarkLinks := bookmarkLinks d @ [row]\<rparr>))"

definition insertBookmarkText :: "bookmarkText \<Rightarrow> database \<Rightarrow> error + (bookmarkText \<times> database)" where
  \<comment> \<open>Modelled from the spec: the schema is not among the sources; at most one text
      row is attached to a bookmark id (a row whose id is taken is refused).\<close>
  "insertBookmarkText row d =
     (if text_id row \<in> set (map text_id (bookmarkTexts d))
      then Inl (ConstraintError ''bookmarkTexts.id'')
      else Inr (row, d\<lparr>bookmarkTexts := bookmarkTexts d @ [row]\<rparr>))"

definition insertBookmarkAsset :: "bookmarkAsset \<Rightarrow> database \<Rightarrow> error + (bookmarkAsset \<times> database)" where
  \<comment> \<open>Modelled from the spec: the schema is not among the sources; at most one asset
      row is attached to a bookmark id (a row whose id is taken is refused).\<close>
  "insertBookmarkAsset row d =
     (if asset_id row \<in> set (map asset_id (bookmarkAssets d))
      then Inl (ConstraintError ''bookmarkAssets.id'')
      else Inr (row, d\<lparr>bookmarkAssets := bookmarkAssets d @ [row]\<rparr>))"

text \<open>
  The callback \<open>createBookmark\<close> hands to \<open>db.transaction\<close>: its statements in order,
  with the database each of them leaves.
\<close>

definition createBookmark_tx ::
  "string \<Rightarrow> environment \<Rightarrow> zNewBookmarkRequest \<Rightarrow> database \<Rightarrow> (error + zBookmark) \<times> database" where
  "createBookmark_tx uid env input d =
     (case insertBookmark env uid d of
        Inl e \<Rightarrow> (Inl e, d)
      | Inr (bm, d1) \<Rightarrow>
         (case input of
            LinkRequest url \<Rightarrow>
              (case insertBookmarkLink
                      \<lparr>link_id = bookmark_id bm, link_url = trim url, link_title = None,
                       link_description = None, link_imageUrl = None, link_crawledAt = None\<rparr> d1 of
                 Inl e \<Rightarrow> (Inl e, d1)
               | Inr (link, d2) \<Rightarrow> (Inr \<lparr>rest = bm, content = LinkContent link, tags = []\<rparr>, d2))
          | TextRequest txt \<Rightarrow>
              (case insertBookmarkText \<lparr>text_id = bookmark_id bm, text_text = Some txt\<rparr> d1 of
                 Inl e \<Rightarrow> (Inl e, d1)
               | Inr (t, d2) \<Rightarrow>
                   (Inr \<lparr>rest = bm,
                         content = TextContent (case text_text t of Some s \<Rightarrow> s | None \<Rightarrow> []),
                         tags = []\<rparr>, d2))
          | AssetRequest ty aid \<Rightarrow>
              (case insertBookmarkAsset
                      \<lparr>asset_id = bookmark_id bm, asset_assetType = ty, asset_assetId = aid,
                       asset_content = None, asset_info = None, asset_metadata = None\<rparr> d1 of
                 Inl e \<Rightarrow> (Inl e, d1)
               | Inr (asset, d2) \<Rightarrow>
                   (Inr \<lparr>rest = bm,
                         content = AssetContent (asset_assetType asset) (asset_assetId asset),
                         tags = []\<rparr>, d2))
          | UnknownRequest \<Rightarrow> (Inl (TRPCError BAD_REQUEST ''BAD_REQUEST''), d1)))"

definition createBookmark ::
  "Context \<Rightarrow> environment \<Rightarrow> zNewBookmarkRequest \<Rightarrow> world \<Rightarrow> (error + zBookmark) \<times> world" where
  "createBookmark ctx env input =
     authedProcedure ctx (\<lambda>uid w.
       case transaction (createBookmark_tx uid env input) w of
         (Inl e, w1) \<Rightarrow> (Inl e, w1)
       | (Inr bm, w1) \<Rightarrow>
          (let w2 = (case content bm of
                       LinkContent _ \<Rightarrow>
                         add LinkCrawlerQueue ''crawl''
                           \<lparr>bookmarkId = bookmark_id (rest bm), indexing = None\<rparr> w1
                     | TextContent _ \<Rightarrow>
                         add OpenAIQueue ''openai''
                           \<lparr>bookmarkId = bookmark_id (rest bm), indexing = None\<rparr> w1
                     | AssetContent _ _ \<Rightarrow>
                         add OpenAIQueue ''openai''
                           \<lparr>bookmarkId = bookmark_id (rest bm), indexing = None\<rparr> w1
                     | UnknownContent \<Rightarrow> w1);
               w3 = add SearchIndexingQueue ''search_indexing''
                      \<lparr>bookmarkId = bookmark_id (rest bm), indexing = Some Index\<rparr> w2
           in (Inr bm, w3)))"

section \<open>The mutations of one bookmark\<close>

text \<open>
  The inputs are values the procedure's input schema has already accepted; the schema
  runs before the ownership gate and the procedure.
\<close>

record zUpdateBookmarksRequest =
  upd_bookmarkId :: string
  upd_archived :: "bool option"
  upd_favourited :: "bool option"
  upd_note :: "string option"

text \<open>
  The query builder's \<open>set\<close> leaves out the columns whose value is \<open>undefined\<close> and
  throws when none is left, before the statement runs.
\<close>

definition updateBookmark ::
  "Context \<Rightarrow> zUpdateBookmarksRequest \<Rightarrow> world \<Rightarrow> (error + bookmark) \<times> world" where
  "updateBookmark ctx input =
     authedProcedure ctx (\<lambda>uid. ensureBookmarkOwnership ctx (upd_bookmarkId input) (\<lambda>w.
       if upd_archived input = None \<and> upd_favourited input = None \<and> upd_note input = None
       then (Inl (QueryBuilderError ''No values to set''), w)
       else
       let hits = (\<lambda>b. bookmark_userId b = uid \<and> bookmark_id b = upd_bookmarkId input);
           upd = (\<lambda>b. b\<lparr>bookmark_archived :=
                           (case upd_archived input of Some v \<Rightarrow> v | None \<Rightarrow> bookmark_archived b),
                         bookmark_favourited :=
                           (case upd_favourited input of Some v \<Rightarrow> v | None \<Rightarrow> bookmark_favourited b),
                         bookmark_note :=
                           (case upd_note input of Some v \<Rightarrow> Some v | None \<Rightarrow> bookmark_note b)\<rparr>);
           res = map upd (filter hits (bookmarks (db w)));
           w1 = w\<lparr>db := (db w)\<lparr>bookmarks :=
                   map (\<lambda>b. if hits b then upd b else b) (bookmarks (db w))\<rparr>\<rparr>
       in case res of
            [] \<Rightarrow> (Inl (TRPCError NOT_FOUND ''Bookmark not found''), w1)
          | r # _ \<Rightarrow>
              (Inr r, add SearchIndexingQueue ''search_indexing''
                        \<lparr>bookmarkId = upd_bookmarkId input, indexing = Some Index\<rparr> w1)))"

definition updateBookmarkText ::
  "Context \<Rightarrow> string \<Rightarrow> string \<Rightarrow> world \<Rightarrow> (error + unit) \<times> world" where
  "updateBookmarkText ctx bid txt =
     authedProcedure ctx (\<lambda>uid. ensureBookmarkOwnership ctx bid (\<lambda>w.
       let res = filter (\<lambda>t. text_id t = bid) (bookmarkTexts (db w));
           w1 = w\<lparr>db := (db w)\<lparr>bookmarkTexts :=
                   map (\<lambda>t. if text_id t = bid then t\<lparr>text_text := Some txt\<rparr> else t)
                     (bookmarkTexts (db w))\<rparr>\<rparr>
       in if length res = 0
          then (Inl (TRPCError NOT_FOUND ''Bookmark not found''), w1)
          else (Inr (), add SearchIndexingQueue ''search_indexing''
                          \<lparr>bookmarkId = bid, indexing = Some Index\<rparr> w1)))"

definition deleteBookmarks :: "(bookmark \<Rightarrow> bool) \<Rightarrow> database \<Rightarrow> database" where
  \<comment> \<open>Modelled from the spec: the schema is not among the sources; a bookmark is deleted
      by removing the row, and deleting either side cascades the attachment row. The rows
      keyed by the bookmark's id (its content variant and its list memberships) go with it.\<close>
  "deleteBookmarks hits d =
     (let gone = set (map bookmark_id (filter hits (bookmarks d))) in
      d\<lparr>bookmarks := filter (\<lambda>b. \<not> hits b) (bookmarks d),
        bookmarkLinks := filter (\<lambda>l. link_id l \<notin> gone) (bookmarkLinks d),
        bookmarkTexts := filter (\<lambda>t. text_id t \<notin> gone) (bookmarkTexts d),
        bookmarkAssets := filter (\<lambda>a. asset_id a \<notin> gone) (bookmarkAssets d),
        tagsOnBookmarks := filter (\<lambda>t. tob_bookmarkId t \<notin> gone) (tagsOnBookmarks d),
        bookmarksInLists := filter (\<lambda>l. bil_bookmarkId l \<notin> gone) (bookmarksInLists d)\<rparr>)"

definition deleteBookmark :: "Context \<Rightarrow> string \<Rightarrow> world \<Rightarrow> (error + unit) \<times> world" where
  "deleteBookmark ctx bid =
     authedProcedure ctx (\<lambda>uid. ensureBookmarkOwnership ctx bid (\<lambda>w.
       let asset = find (\<lambda>a. asset_id a = bid) (bookmarkAssets (db w));
           hits = (\<lambda>b. bookmark_userId b = uid \<and> bookmark_id b = bid);
           changes = length (filter hits (bookmarks (db w)));
           w1 = w\<lparr>db := deleteBookmarks hits (db w)\<rparr>;
           w2 = add SearchIndexingQueue ''search_indexing''
                  \<lparr>bookmarkId = bid, indexing = Some Delete\<rparr> w1
       in case asset of
            Some a \<Rightarrow>
              if changes > 0 then (Inr (), deleteAsset uid (asset_assetId a) w2) else (Inr (), w2)
          | None \<Rightarrow> (Inr (), w2)))"

definition recrawlBookmark :: "Context \<Rightarrow> string \<Rightarrow> world \<Rightarrow> (error + unit) \<times> world" where
  "recrawlBookmark ctx bid =
     authedProcedure ctx (\<lambda>uid. ensureBookmarkOwnership ctx bid (\<lambda>w.
       (Inr (), add LinkCrawlerQueue ''crawl'' \<lparr>bookmarkId = bid, indexing = None\<rparr> w)))"

definition getBookmark :: "Context \<Rightarrow> string \<Rightarrow> world \<Rightarrow> (error + zBookmark) \<times> world" where
  "getBookmark ctx bid =
     authedProcedure ctx (\<lambda>uid. ensureBookmarkOwnership ctx bid (\<lambda>w.
       case find (\<lambda>b. bookmark_userId b = uid \<and> bookmark_id b = bid) (bookmarks (db w)) of
         None \<Rightarrow> (Inl (TRPCError NOT_FOUND ''Bookmark not found''), w)
       | Some b \<Rightarrow> (Inr (toZodSchema (withRelations (db w) b)), w)))"

section \<open>searchBookmarks\<close>

record zGetBookmarksResponse =
  resp_bookmarks :: "zBookmark list"
  nextCursor :: "int option"

definition ownerFilter :: "string \<Rightarrow> string" where
  "ownerFilter uid = ''userId = '' @ [CHR 0x27] @ uid @ [CHR 0x27]"

text \<open>
  \<open>idToRank\<close> is the object the \<open>reduce\<close> over the hits builds: a later hit overwrites an
  earlier one of the same id. Every bookmark the database returns has the id of a hit, so
  the comparator never reads a missing rank (read as 0 here). The ranking score, a
  floating-point number, is a rational here: the sort only compares scores.
  \<open>Array.prototype.sort\<close> is stable; the comparator \<open>idToRank[b.id] - idToRank[a.id]\<close>
  orders by descending rank. The \<open>findMany\<close> looks the bookmarks up by the ids of the hits
  and returns them in the order of their ids. (\<open>idToRank\<close> is a plain object too: for the
  one id \<open>__proto__\<close> the assignment creates no property and the rank read is not a
  number, which leaves the place of that row in the order open; which rows are returned
  does not depend on it.)
\<close>

definition idToRank :: "hit list \<Rightarrow> string \<Rightarrow> rat option" where
  "idToRank hits = foldl (\<lambda>acc r. acc(hit_id r \<mapsto> hit_rankingScore r)) Map.empty hits"

definition rankOf :: "(string \<Rightarrow> rat option) \<Rightarrow> string \<Rightarrow> rat" where
  "rankOf m k = (case m k of Some x \<Rightarrow> x | None \<Rightarrow> 0)"

definition searchBookmarks ::
  "Context \<Rightarrow> environment \<Rightarrow> string \<Rightarrow> world \<Rightarrow> (error + zGetBookmarksResponse) \<times> world" where
  "searchBookmarks ctx env txt =
     authedProcedure ctx (\<lambda>uid w.
       case searchIdxClient env of
         None \<Rightarrow>
           (Inl (TRPCError INTERNAL_SERVER_ERROR ''Search functionality is not configured''), w)
       | Some client \<Rightarrow>
          (let params = \<lparr>filter_param = [ownerFilter uid], showRankingScore = True,
                         attributesToRetrieve = [''id''], sort_param = [''createdAt:desc'']\<rparr>;
               hits = client txt params;
               w1 = w\<lparr>effects := effects w @ [Search txt params]\<rparr>
           in if length hits = 0
              then (Inr \<lparr>resp_bookmarks = [], nextCursor = None\<rparr>, w1)
              else
                (let results =
                       map (withRelations (db w))
                         (sort_key bookmark_id
                            (filter (\<lambda>b. bookmark_userId b = uid \<and>
                                          bookmark_id b \<in> set (map hit_id hits))
                               (bookmarks (db w))));
                     sorted =
                       sort_key (\<lambda>r. - rankOf (idToRank hits) (bookmark_id (q_rest r))) results
                 in (Inr \<lparr>resp_bookmarks = map toZodSchema sorted, nextCursor = None\<rparr>, w1))))"

section \<open>getBookmarks\<close>

text \<open>
  The request schema is not among the sources; its fields are the ones the procedure
  reads, each of them optional, and the limit is a count.
\<close>

record zGetBookmarksRequest =
  req_ids :: "string list option"
  req_archived :: "bool option"
  req_favourited :: "bool option"
  req_tagId :: "string option"
  req_listId :: "string option"
  req_limit :: "nat option"
  req_cursor :: "int option"

text \<open>\<open>!input.limit\<close> holds for a limit that is not set and for the limit 0.\<close>

definition effectiveLimit :: "environment \<Rightarrow> zGetBookmarksRequest \<Rightarrow> nat" where
  "effectiveLimit env input =
     (case req_limit input of
        None \<Rightarrow> DEFAULT_NUM_BOOKMARKS_PER_PAGE env
      | Some n \<Rightarrow> if n = 0 then DEFAULT_NUM_BOOKMARKS_PER_PAGE env else n)"

text \<open>The \<open>where\<close> clause of the subquery \<open>bookmarksSq\<close>.\<close>

definition bookmarksWhere :: "string \<Rightarrow> zGetBookmarksRequest \<Rightarrow> database \<Rightarrow> bookmark \<Rightarrow> bool" where
  "bookmarksWhere uid input d b =
     (bookmark_userId b = uid \<and>
      (case req_archived input of Some a \<Rightarrow> bookmark_archived b = a | None \<Rightarrow> True) \<and>
      (case req_favourited input of Some f \<Rightarrow> bookmark_favourited b = f | None \<Rightarrow> True) \<and>
      (case req_ids input of Some ids \<Rightarrow> bookmark_id b \<in> set ids | None \<Rightarrow> True) \<and>
      (case req_tagId input of
         Some t \<Rightarrow>
           list_ex (\<lambda>r. tob_bookmarkId r = bookmark_id b \<and> tob_tagId r = t) (tagsOnBookmarks d)
       | None \<Rightarrow> True) \<and>
      (case req_listId input of
         Some l \<Rightarrow>
           list_ex (\<lambda>r. bil_bookmarkId r = bookmark_id b \<and> bil_listId r = l) (bookmarksInLists d)
       | None \<Rightarrow> True) \<and>
      (case req_cursor input of Some c \<Rightarrow> bookmark_createdAt b \<le> c | None \<Rightarrow> True))"

text \<open>
  \<open>orderBy(desc(createdAt))\<close>: the rows by descending \<open>createdAt\<close>, rows of the same
  \<open>createdAt\<close> in storage order.
\<close>

definition orderByDesc :: "('a \<Rightarrow> int) \<Rightarrow> 'a list \<Rightarrow> 'a list" where
  "orderByDesc key rows = sort_key (\<lambda>r. - key r) rows"

definition bookmarksSq :: "string \<Rightarrow> nat \<Rightarrow> zGetBookmarksRequest \<Rightarrow> database \<Rightarrow> bookmark list" where
  "bookmarksSq uid limit input d =
     take (limit + 1) (orderByDesc bookmark_createdAt (filter (bookmarksWhere uid input d) (bookmarks d)))"

text \<open>
  A left join: every left row with each right row the condition accepts, or once with
  no right row when it accepts none.
\<close>

definition leftJoin :: "('l \<Rightarrow> 'r \<Rightarrow> bool) \<Rightarrow> 'l list \<Rightarrow> 'r list \<Rightarrow> ('l \<times> 'r option) list" where
  "leftJoin on ls rs =
     concat (map (\<lambda>l. if filter (on l) rs = [] then [(l, None)]
                       else map (\<lambda>r. (l, Some r)) (filter (on l) rs)) ls)"

record joinedRow =
  row_bookmarksSq :: bookmark
  row_tagsOnBookmarks :: "tagOnBookmark option"
  row_bookmarkTags :: "bookmarkTag option"
  row_bookmarkLinks :: "bookmarkLink option"
  row_bookmarkTexts :: "bookmarkText option"
  row_bookmarkAssets :: "bookmarkAsset option"

definition joinTags :: "database \<Rightarrow> bookmark list \<Rightarrow> ((bookmark \<times> tagOnBookmark option) \<times> bookmarkTag option) list" where
  "joinTags d sq =
     leftJoin (\<lambda>(b, a) t. case a of None \<Rightarrow> False | Some a' \<Rightarrow> tob_tagId a' = tag_id t)
       (leftJoin (\<lambda>b a. bookmark_id b = tob_bookmarkId a) sq (tagsOnBookmarks d))
       (bookmarkTags d)"

definition joinContent :: "database \<Rightarrow> ((bookmark \<times> tagOnBookmark option) \<times> bookmarkTag option) list \<Rightarrow> joinedRow list" where
  "joinContent d rows =
     map (\<lambda>(((((b, a), t), l), x), s).
            \<lparr>row_bookmarksSq = b, row_tagsOnBookmarks = a, row_bookmarkTags = t,
             row_bookmarkLinks = l, row_bookmarkTexts = x, row_bookmarkAssets = s\<rparr>)
       (leftJoin (\<lambda>((((b, a), t), l), x) s. asset_id s = bookmark_id b)
          (leftJoin (\<lambda>(((b, a), t), l) x. text_id x = bookmark_id b)
             (leftJoin (\<lambda>((b, a), t) l. link_id l = bookmark_id b) rows (bookmarkLinks d))
             (bookmarkTexts d))
          (bookmarkAssets d))"

definition selectJoined :: "database \<Rightarrow> bookmark list \<Rightarrow> joinedRow list" where
  "selectJoined d sq =
     orderByDesc (\<lambda>r. bookmark_createdAt (row_bookmarksSq r)) (joinContent d (joinTags d sq))"

text \<open>
  The accumulator of the \<open>reduce\<close> is a plain object keyed by bookmark id, kept here as
  the list of its own properties in the order they were created. A read \<open>acc[k]\<close> finds an
  own property or, for the names of \<open>Object.prototype\<close>, an inherited one, which is truthy
  and has no \<open>tags\<close>. \<open>Object.values\<close> lists the values of the keys that are array indices
  (canonical decimal numerals below \<open>2^32 - 1\<close>) first, in ascending numeric order, and
  then the values of the other keys in the order of their creation.
\<close>

definition objectPrototypeNames :: "string list" where
  "objectPrototypeNames =
     [''constructor'', ''__defineGetter__'', ''__defineSetter__'', ''hasOwnProperty'',
      ''__lookupGetter__'', ''__lookupSetter__'', ''isPrototypeOf'', ''propertyIsEnumerable'',
      ''toString'', ''valueOf'', ''__proto__'', ''toLocaleString'']"

definition toIndex :: "string \<Rightarrow> int" where
  "toIndex k = foldl (\<lambda>n c. 10 * n + (of_char c - 48)) 0 k"

definition isArrayIndex :: "string \<Rightarrow> bool" where
  "isArrayIndex k =
     (k \<noteq> [] \<and> list_all (\<lambda>c. (48::int) \<le> of_char c \<and> of_char c \<le> (57::int)) k \<and>
      (k = ''0'' \<or> hd k \<noteq> CHR ''0'') \<and> toIndex k < 4294967295)"

definition objectValues :: "(string \<times> 'a) list \<Rightarrow> 'a list" where
  "objectValues acc =
     map snd (sort_key (\<lambda>e. toIndex (fst e)) (filter (\<lambda>e. isArrayIndex (fst e)) acc)) @
     map snd (filter (\<lambda>e. \<not> isArrayIndex (fst e)) acc)"

definition pushTag :: "string \<Rightarrow> zBookmarkTags \<Rightarrow> (string \<times> zBookmark) list \<Rightarrow> (string \<times> zBookmark) list" where
  "pushTag k t acc = map (\<lambda>(k', v). if k' = k then (k', v\<lparr>tags := tags v @ [t]\<rparr>) else (k', v)) acc"

definition reduceStep :: "(string \<times> zBookmark) list \<Rightarrow> joinedRow \<Rightarrow> error + (string \<times> zBookmark) list" where
  "reduceStep acc row =
     (let bid = bookmark_id (row_bookmarksSq row);
          acc1 =
            (if map_of acc bid = None \<and> bid \<notin> set objectPrototypeNames
             then acc @
               [(bid,
                 \<lparr>rest = row_bookmarksSq row,
                  content =
                    (case row_bookmarkLinks row of
                       Some link \<Rightarrow> LinkContent link
                     | None \<Rightarrow>
                        (case row_bookmarkTexts row of
                           Some t \<Rightarrow> TextContent (case text_text t of Some s \<Rightarrow> s | None \<Rightarrow> [])
                         | None \<Rightarrow>
                            (case row_bookmarkAssets row of
                               Some asset \<Rightarrow>
                                 AssetContent (asset_assetType asset) (asset_assetId asset)
                             | None \<Rightarrow> UnknownContent))),
                  tags = []\<rparr>)]
             else acc)
      in case row_bookmarkTags row of
           None \<Rightarrow> Inr acc1
         | Some tag \<Rightarrow>
            (case row_tagsOnBookmarks row of
               None \<Rightarrow>
                 Inl (InvariantError
                   ''if bookmark tag is set, its many-to-many relation must also be set'')
             | Some a \<Rightarrow>
                 if map_of acc1 bid = None
                 then Inl (TypeError ''Cannot read properties of undefined (reading push)'')
                 else Inr (pushTag bid
                             \<lparr>ztag_attachedBy = tob_attachedBy a, ztag_tag = Some tag\<rparr> acc1)))"

fun reduceRows :: "(string \<times> zBookmark) list \<Rightarrow> joinedRow list \<Rightarrow> error + (string \<times> zBookmark) list" where
  "reduceRows acc [] = Inr acc"
| "reduceRows acc (row # rows) =
     (case reduceStep acc row of Inl e \<Rightarrow> Inl e | Inr acc' \<Rightarrow> reduceRows acc' rows)"

definition getBookmarks ::
  "Context \<Rightarrow> environment \<Rightarrow> zGetBookmarksRequest \<Rightarrow> world \<Rightarrow> (error + zGetBookmarksResponse) \<times> world" where
  "getBookmarks ctx env input =
     authedProcedure ctx (\<lambda>uid w.
       if (case req_ids input of Some ids \<Rightarrow> length ids = 0 | None \<Rightarrow> False)
       then (Inr \<lparr>resp_bookmarks = [], nextCursor = None\<rparr>, w)
       else
         (let limit = effectiveLimit env input;
              results = selectJoined (db w) (bookmarksSq uid limit input (db w))
          in case reduceRows [] results of
               Inl e \<Rightarrow> (Inl e, w)
             | Inr bookmarksRes \<Rightarrow>
                (let bookmarksArr = objectValues bookmarksRes in
                 if length bookmarksArr > limit
                 then (Inr \<lparr>resp_bookmarks = butlast bookmarksArr,
                            nextCursor =
                              (case rev bookmarksArr of
                                 [] \<Rightarrow> None
                               | nextItem # _ \<Rightarrow> Some (bookmark_createdAt (rest nextItem)))\<rparr>, w)
                 else (Inr \<lparr>resp_bookmarks = bookmarksArr, nextCursor = None\<rparr>, w))))"

section \<open>updateTags\<close>

record attachItem =
  att_tagId :: "string option"
  att_tag :: string

record zUpdateTagsRequest =
  ut_bookmarkId :: string
  ut_attach :: "attachItem list"
  ut_detach :: "string list"

fun insertBookmarkTags :: "bookmarkTag list \<Rightarrow> bookmarkTag list \<Rightarrow> bookmarkTag list" where
  \<comment> \<open>Modelled from the spec: the schema is not among the sources; a tag has the identity
      \<open>id\<close> and a name that is unique per owner. With \<open>onConflictDoNothing\<close> a row that
      meets a row of the same \<open>id\<close> or of the same owner and name is left out.\<close>
  "insertBookmarkTags [] tbl = tbl"
| "insertBookmarkTags (r # rs) tbl =
     insertBookmarkTags rs
       (if list_ex (\<lambda>g. tag_id g = tag_id r \<or>
                        (tag_userId g = tag_userId r \<and> tag_name g = tag_name r)) tbl
        then tbl else tbl @ [r])"

fun insertTagsOnBookmarks :: "tagOnBookmark list \<Rightarrow> tagOnBookmark list \<Rightarrow> tagOnBookmark list" where
  \<comment> \<open>Modelled from the spec: the schema is not among the sources; a tag attachment has
      the composite key (bookmarkId, tagId). With \<open>onConflictDoNothing\<close> a row that meets
      a row of the same key is left out.\<close>
  "insertTagsOnBookmarks [] tbl = tbl"
| "insertTagsOnBookmarks (r # rs) tbl =
     insertTagsOnBookmarks rs
       (if list_ex (\<lambda>t. tob_bookmarkId t = tob_bookmarkId r \<and> tob_tagId t = tob_tagId r) tbl
        then tbl else tbl @ [r])"

text \<open>
  The callback \<open>updateTags\<close> hands to \<open>db.transaction\<close>: its statements in order, with
  the database each of them leaves. The k-th row of \<open>toBeCreatedTags\<close> gets the k-th
  generated id. The lookup of \<open>allIds\<close> goes by the tag names of the caller and returns
  the tags in the order of their names. The query builder's \<open>values\<close> throws on an empty
  array, which is why the source guards the insert of \<open>toBeCreatedTags\<close>; the insert of
  the attachments has no guard.
\<close>

definition updateTags_tx ::
  "string \<Rightarrow> environment \<Rightarrow> zUpdateTagsRequest \<Rightarrow> database \<Rightarrow> (error + unit) \<times> database" where
  "updateTags_tx uid env input d =
     (let d1 =
            (if length (ut_detach input) > 0
             then d\<lparr>tagsOnBookmarks :=
                      filter (\<lambda>t. \<not> (tob_bookmarkId t = ut_bookmarkId input \<and>
                                      tob_tagId t \<in> set (ut_detach input)))
                        (tagsOnBookmarks d)\<rparr>
             else d)
      in if length (ut_attach input) = 0 then (Inr (), d1)
         else
           (let toBeCreatedTags =
                  map (\<lambda>(k, i). \<lparr>tag_id = createId env k, tag_name = att_tag i, tag_userId = uid\<rparr>)
                    (enumerate 0 (filter (\<lambda>i. att_tagId i = None) (ut_attach input)));
                d2 =
                  (if length toBeCreatedTags > 0
                   then d1\<lparr>bookmarkTags := insertBookmarkTags toBeCreatedTags (bookmarkTags d1)\<rparr>
                   else d1);
                allIds =
                  map tag_id
                    (sort_key tag_name
                       (filter (\<lambda>g. tag_userId g = uid \<and>
                                     tag_name g \<in> set (map att_tag (ut_attach input)))
                          (bookmarkTags d2)))
            in if allIds = []
               then (Inl (QueryBuilderError ''values() must be called with at least one value''), d2)
               else
                 (Inr (), d2\<lparr>tagsOnBookmarks :=
                            insertTagsOnBookmarks
                              (map (\<lambda>i. \<lparr>tob_bookmarkId = ut_bookmarkId input, tob_tagId = i,
                                         tob_attachedBy = Human, tob_userId = uid\<rparr>) allIds)
                              (tagsOnBookmarks d2)\<rparr>)))"

definition updateTags :: "Context \<Rightarrow> environment \<Rightarrow> zUpdateTagsRequest \<Rightarrow> world \<Rightarrow> (error + unit) \<times> world" where
  "updateTags ctx env input =
     authedProcedure ctx (\<lambda>uid. ensureBookmarkOwnership ctx (ut_bookmarkId input) (\<lambda>w.
       transaction (updateTags_tx uid env input) w))"

section \<open>Reading the effect log\<close>


section \<open>The content of a bookmark, as the specification words it\<close>

text \<open>
  The content the public schema shows for a bookmark id, written after the words of the
  specification and not after \<open>toZodSchema\<close>: the link variant if a link row exists,
  otherwise the text variant (a null text as the empty string) if a text row exists,
  otherwise the asset variant if an asset row exists, otherwise "unknown".
\<close>

definition contentOfVariants :: "database \<Rightarrow> string \<Rightarrow> zBookmarkContent" where
  "contentOfVariants d bid =
     (case find (\<lambda>l. link_id l = bid) (bookmarkLinks d) of
        Some l \<Rightarrow> LinkContent l
      | None \<Rightarrow>
         (case find (\<lambda>t. text_id t = bid) (bookmarkTexts d) of
            Some t \<Rightarrow> TextContent (case text_text t of None \<Rightarrow> '''' | Some s \<Rightarrow> s)
          | None \<Rightarrow>
             (case find (\<lambda>a. asset_id a = bid) (bookmarkAssets d) of
                Some a \<Rightarrow> AssetContent (asset_assetType a) (asset_assetId a)
              | None \<Rightarrow> UnknownContent)))"

section \<open>Reading the tag tables\<close>

text \<open>
  The row \<open>updateTags\<close> inserts for a tag id, the attachment rows of a (bookmarkId, tagId)
  pair, the tag rows of an (owner, name) pair, and the three intermediate values of the
  transaction of \<open>updateTags\<close>: the attachments left by the detach statement, the rows of
  \<open>toBeCreatedTags\<close> and the list \<open>allIds\<close>.
\<close>

definition humanAttachment :: "string \<Rightarrow> string \<Rightarrow> string \<Rightarrow> tagOnBookmark" where
  "humanAttachment bid uid i =
     \<lparr>tob_bookmarkId = bid, tob_tagId = i, tob_attachedBy = Human, tob_userId = uid\<rparr>"

definition attachedAs :: "string \<Rightarrow> string \<Rightarrow> tagOnBookmark list \<Rightarrow> tagOnBookmark list" where
  "attachedAs bid i tbl = filter (\<lambda>t. tob_bookmarkId t = bid \<and> tob_tagId t = i) tbl"

definition tagsNamed :: "string \<Rightarrow> string \<Rightarrow> bookmarkTag list \<Rightarrow> bookmarkTag list" where
  "tagsNamed uid n tbl = filter (\<lambda>g. tag_userId g = uid \<and> tag_name g = n) tbl"

definition detached :: "zUpdateTagsRequest \<Rightarrow> tagOnBookmark list \<Rightarrow> tagOnBookmark list" where
  "detached input tbl =
     filter (\<lambda>t. \<not> (tob_bookmarkId t = ut_bookmarkId input \<and> tob_tagId t \<in> set (ut_detach input))) tbl"

definition toBeCreatedTags :: "string \<Rightarrow> environment \<Rightarrow> zUpdateTagsRequest \<Rightarrow> bookmarkTag list" where
  "toBeCreatedTags uid env input =
     map (\<lambda>(k, i). \<lparr>tag_id = createId env k, tag_name = att_tag i, tag_userId = uid\<rparr>)
       (enumerate 0 (filter (\<lambda>i. att_tagId i = None) (ut_attach input)))"

definition allIds :: "string \<Rightarrow> zUpdateTagsRequest \<Rightarrow> bookmarkTag list \<Rightarrow> string list" where
  "allIds uid input tbl =
     map tag_id
       (sort_key tag_name
          (filter (\<lambda>g. tag_userId g = uid \<and> tag_name g \<in> set (map att_tag (ut_attach input))) tbl))"

section \<open>Reading getBookmarks\<close>

text \<open>
  The bookmarks of the caller that pass the filters and the cursor of a request, newest
  first: the rows the subquery \<open>bookmarksSq\<close> selects before its \<open>limit\<close>.
\<close>

definition matching :: "string \<Rightarrow> zGetBookmarksRequest \<Rightarrow> database \<Rightarrow> bookmark list" where
  "matching uid input d =
     orderByDesc bookmark_createdAt (filter (bookmarksWhere uid input d) (bookmarks d))"

text \<open>
  A bookmark id that is a plain key of the accumulator of the \<open>reduce\<close>: not an array
  index and not a name of \<open>Object.prototype\<close>. The generator of the ids is not among the
  sources; the statement about the page of \<open>getBookmarks\<close> assumes it of the ids in the
  store.
\<close>

definition plainKey :: "string \<Rightarrow> bool" where
  "plainKey k = (\<not> isArrayIndex k \<and> k \<notin> set objectPrototypeNames)"

text \<open>
  The joined rows of one bookmark; the keys and bookmark columns of the accumulator of the
  \<open>reduce\<close>; and what a run of joined rows adds to them: an entry for each bookmark id
  that has none yet.
\<close>

definition block :: "database \<Rightarrow> bookmark \<Rightarrow> joinedRow list" where
  "block d b = joinContent d (joinTags d [b])"

definition keysRest :: "(string \<times> zBookmark) list \<Rightarrow> (string \<times> bookmark) list" where
  "keysRest acc = map (\<lambda>(k, z). (k, rest z)) acc"

fun addNew :: "(string \<times> bookmark) list \<Rightarrow> bookmark list \<Rightarrow> (string \<times> bookmark) list" where
  "addNew kr [] = kr"
| "addNew kr (b # bs) =
     addNew (if bookmark_id b \<in> fst ` set kr then kr else kr @ [(bookmark_id b, b)]) bs"

section \<open>A small store to run the procedures on\<close>

text \<open>
  Alice owns a link bookmark tagged by the AI, an asset bookmark and a text bookmark whose
  text is null; Bob owns a text bookmark. The search engine answers every query with
  three hits, the first of them Bob's bookmark.
\<close>

definition ex_ctx :: Context where
  "ex_ctx = \<lparr>ctx_user = Some ''alice''\<rparr>"

definition ex_bookmark :: "string \<Rightarrow> string \<Rightarrow> int \<Rightarrow> bookmark" where
  "ex_bookmark bid uid t =
     \<lparr>bookmark_id = bid, bookmark_userId = uid, bookmark_createdAt = t,
      bookmark_archived = False, bookmark_favourited = False, bookmark_note = None,
      bookmark_taggingStatus = Some Pending\<rparr>"

definition ex_db :: database where
  "ex_db =
     \<lparr>bookmarks = [ex_bookmark ''b1'' ''alice'' 10, ex_bookmark ''b2'' ''alice'' 20,
                   ex_bookmark ''b3'' ''bob'' 30, ex_bookmark ''b4'' ''alice'' 40],
      bookmarkLinks = [\<lparr>link_id = ''b1'', link_url = ''https://example.com'', link_title = None,
                        link_description = None, link_imageUrl = None, link_crawledAt = None\<rparr>],
      bookmarkTexts = [\<lparr>text_id = ''b3'', text_text = Some ''buy milk''\<rparr>,
                       \<lparr>text_id = ''b4'', text_text = None\<rparr>],
      bookmarkAssets = [\<lparr>asset_id = ''b2'', asset_assetType = Image, asset_assetId = ''a1'',
                         asset_content = None, asset_info = None, asset_metadata = None\<rparr>],
      bookmarkTags = [\<lparr>tag_id = ''t1'', tag_name = ''news'', tag_userId = ''alice''\<rparr>,
                      \<lparr>tag_id = ''t2'', tag_name = ''food'', tag_userId = ''alice''\<rparr>],
      tagsOnBookmarks = [\<lparr>tob_bookmarkId = ''b1'', tob_tagId = ''t1'', tob_attachedBy = AI,
                          tob_userId = ''alice''\<rparr>],
      bookmarksInLists = []\<rparr>"

definition ex_world :: world where
  "ex_world = \<lparr>db = ex_db, effects = []\<rparr>"

text \<open>A second store: three bookmarks of Alice whose ids are the numerals 1, 2 and 3.\<close>

definition ex_numbered :: world where
  "ex_numbered =
     \<lparr>db = \<lparr>bookmarks = [ex_bookmark ''1'' ''alice'' 10, ex_bookmark ''2'' ''alice'' 20,
                          ex_bookmark ''3'' ''alice'' 30],
             bookmarkLinks = [], bookmarkTexts = [], bookmarkAssets = [], bookmarkTags = [],
             tagsOnBookmarks = [], bookmarksInLists = []\<rparr>,
      effects = []\<rparr>"

definition ex_env :: environment where
  "ex_env =
     \<lparr>createId = (\<lambda>k. ''n'' @ replicate k CHR ''x''), now = 50,
      searchIdxClient = Some (\<lambda>q p. [\<lparr>hit_id = ''b3'', hit_rankingScore = 9 / 10\<rparr>,
                                       \<lparr>hit_id = ''b1'', hit_rankingScore = 1 / 2\<rparr>,
                                       \<lparr>hit_id = ''b4'', hit_rankingScore = 7 / 10\<rparr>]),
      DEFAULT_NUM_BOOKMARKS_PER_PAGE = 2\<rparr>"

section \<open>The ownership gate and the procedures behind it\<close>

lemma authedProcedure_user: "ctx_user ctx = Some uid \<Longrightarrow> authedProcedure ctx body w = body uid w"
  by (simp add: authedProcedure_def)

lemma ensureBookmarkOwnership_missing:
  "ctx_user ctx = Some uid \<Longrightarrow> find (\<lambda>b. bookmark_id b = bid) (bookmarks (db w)) = None \<Longrightarrow>
   ensureBookmarkOwnership ctx bid next w = (Inl (TRPCError NOT_FOUND ''Bookmark not found''), w)"
  by (simp add: ensureBookmarkOwnership_def)

lemma ensureBookmarkOwnership_foreign:
  "ctx_user ctx = Some uid \<Longrightarrow> find (\<lambda>b. bookmark_id b = bid) (bookmarks (db w)) = Some b \<Longrightarrow>
   bookmark_userId b \<noteq> uid \<Longrightarrow>
   ensureBookmarkOwnership ctx bid next w =
     (Inl (TRPCError FORBIDDEN ''User is not allowed to access resource''), w)"
  by (simp add: ensureBookmarkOwnership_def)

lemma ensureBookmarkOwnership_owner:
  "ctx_user ctx = Some uid \<Longrightarrow> find (\<lambda>b. bookmark_id b = bid) (bookmarks (db w)) = Some b \<Longrightarrow>
   bookmark_userId b = uid \<Longrightarrow> ensureBookmarkOwnership ctx bid next w = next w"
  by (simp add: ensureBookmarkOwnership_def)

text \<open>
  C3. For an authenticated caller, each of update, updateText, delete, recrawl,
  getBookmark and updateTags fails with NOT_FOUND when no bookmark has the given id, and
  with FORBIDDEN when the bookmark found belongs to another user; in both cases the
  world (database and effect log) is returned as it was. The gate looks for the row
  first and compares the owner only when a row was found.
\<close>

theorem gate_rejects_missing_and_foreign:
  assumes "ctx_user ctx = Some uid"
    and "upd_bookmarkId upd = bid" and "ut_bookmarkId ut = bid"
  shows "(find (\<lambda>b. bookmark_id b = bid) (bookmarks (db w)) = None \<longrightarrow>
            updateBookmark ctx upd w = (Inl (TRPCError NOT_FOUND ''Bookmark not found''), w) \<and>
            updateBookmarkText ctx bid txt w = (Inl (TRPCError NOT_FOUND ''Bookmark not found''), w) \<and>
            deleteBookmark ctx bid w = (Inl (TRPCError NOT_FOUND ''Bookmark not found''), w) \<and>
            recrawlBookmark ctx bid w = (Inl (TRPCError NOT_FOUND ''Bookmark not found''), w) \<and>
            getBookmark ctx bid w = (Inl (TRPCError NOT_FOUND ''Bookmark not found''), w) \<and>
            updateTags ctx env ut w = (Inl (TRPCError NOT_FOUND ''Bookmark not found''), w)) \<and>
         (\<forall>b. find (\<lambda>b. bookmark_id b = bid) (bookmarks (db w)) = Some b \<and> bookmark_userId b \<noteq> uid \<longrightarrow>
            updateBookmark ctx upd w =
              (Inl (TRPCError FORBIDDEN ''User is not allowed to access resource''), w) \<and>
            updateBookmarkText ctx bid txt w =
              (Inl (TRPCError FORBIDDEN ''User is not allowed to access resource''), w) \<and>
            deleteBookmark ctx bid w =
              (Inl (TRPCError FORBIDDEN ''User is not allowed to access resource''), w) \<and>
            recrawlBookmark ctx bid w =
              (Inl (TRPCError FORBIDDEN ''User is not allowed to access resource''), w) \<and>
            getBookmark ctx bid w =
              (Inl (TRPCError FORBIDDEN ''User is not allowed to access resource''), w) \<and>
            updateTags ctx env ut w =
              (Inl (TRPCError FORBIDDEN ''User is not allowed to access resource''), w))"
  using assms
  by (auto simp: updateBookmark_def updateBookmarkText_def deleteBookmark_def recrawlBookmark_def
      getBookmark_def updateTags_def authedProcedure_user ensureBookmarkOwnership_missing
      ensureBookmarkOwnership_foreign)

theorem gate_rejects_missing_and_foreign_witness:
  "updateBookmark ex_ctx
     \<lparr>upd_bookmarkId = ''zz'', upd_archived = Some True, upd_favourited = None, upd_note = None\<rparr>
     ex_world = (Inl (TRPCError NOT_FOUND ''Bookmark not found''), ex_world) \<and>
   deleteBookmark ex_ctx ''zz'' ex_world =
     (Inl (TRPCError NOT_FOUND ''Bookmark not found''), ex_world) \<and>
   updateBookmarkText ex_ctx ''b3'' ''hi'' ex_world =
     (Inl (TRPCError FORBIDDEN ''User is not allowed to access resource''), ex_world) \<and>
   updateTags ex_ctx ex_env \<lparr>ut_bookmarkId = ''b3'', ut_attach = [], ut_detach = [''t1'']\<rparr> ex_world =
     (Inl (TRPCError FORBIDDEN ''User is not allowed to access resource''), ex_world)"
  using gate_rejects_missing_and_foreign [of ex_ctx "''alice''"
      "\<lparr>upd_bookmarkId = ''zz'', upd_archived = Some True, upd_favourited = None, upd_note = None\<rparr>"
      "''zz''" "\<lparr>ut_bookmarkId = ''zz'', ut_attach = [], ut_detach = []\<rparr>" ex_world "''hi''" ex_env]
    gate_rejects_missing_and_foreign [of ex_ctx "''alice''"
      "\<lparr>upd_bookmarkId = ''b3'', upd_archived = Some True, upd_favourited = None, upd_note = None\<rparr>"
      "''b3''" "\<lparr>ut_bookmarkId = ''b3'', ut_attach = [], ut_detach = [''t1'']\<rparr>" ex_world "''hi''" ex_env]
  by (simp add: ex_ctx_def ex_world_def ex_db_def ex_bookmark_def)

section \<open>Search\<close>

text \<open>
  C7. When the search engine client is not configured, searchBookmarks fails with the
  error "Search functionality is not configured" (and so never answers with an empty
  list of bookmarks); the world is left as it was.
\<close>

theorem search_not_configured:
  assumes "ctx_user ctx = Some uid" and "searchIdxClient env = None"
  shows "searchBookmarks ctx env txt w =
           (Inl (TRPCError INTERNAL_SERVER_ERROR ''Search functionality is not configured''), w)"
  using assms by (simp add: searchBookmarks_def authedProcedure_user)

theorem search_not_configured_witness:
  "searchBookmarks ex_ctx (ex_env\<lparr>searchIdxClient := None\<rparr>) ''milk'' ex_world =
     (Inl (TRPCError INTERNAL_SERVER_ERROR ''Search functionality is not configured''), ex_world)"
  using search_not_configured [of ex_ctx "''alice''" "ex_env\<lparr>searchIdxClient := None\<rparr>" "''milk''" ex_world]
  by (simp add: ex_ctx_def)

section \<open>createBookmark: the transaction and the jobs\<close>


lemma releases_append: "releases (xs @ ys) = releases xs @ releases ys"
  by (induction xs rule: releases.induct) auto






lemma ex_user: "ctx_user ex_ctx = Some ''alice''"
  by (simp add: ex_ctx_def)

text \<open>
  C1. The claim is that a createBookmark call whose insert fails or whose type is unknown
  leaves no bookmark row. It does not hold of the code: the inserts of the callback run
  after the commit of \<open>db.transaction\<close>, so nothing undoes them. On the small store a
  request of unknown type fails with BAD_REQUEST after the begin and the commit, adds no
  job, and the bookmark row the call inserted first is in the store afterwards.
\<close>

theorem createBookmark_unknown_keeps_row:
  "createBookmark ex_ctx ex_env UnknownRequest ex_world =
     (Inl (TRPCError BAD_REQUEST ''BAD_REQUEST''),
      \<lparr>db = ex_db\<lparr>bookmarks := bookmarks ex_db @ [ex_bookmark ''n'' ''alice'' 50]\<rparr>,
        effects = [TxBegin, TxCommit]\<rparr>)"
  by code_simp



section \<open>deleteBookmark\<close>

lemma ex_delete_missing:
  "deleteBookmark ex_ctx ''zz'' ex_world =
     (Inl (TRPCError NOT_FOUND ''Bookmark not found''), ex_world)"
  by code_simp

lemma ex_delete_asset:
  "deleteBookmark ex_ctx ''b2'' ex_world =
     (Inr (),
      \<lparr>db = ex_db\<lparr>bookmarks := [ex_bookmark ''b1'' ''alice'' 10, ex_bookmark ''b3'' ''bob'' 30,
                                 ex_bookmark ''b4'' ''alice'' 40],
                  bookmarkAssets := []\<rparr>,
        effects = [Add SearchIndexingQueue ''search_indexing''
                     \<lparr>bookmarkId = ''b2'', indexing = Some Delete\<rparr>,
                   DeleteAsset ''alice'' ''a1'']\<rparr>)"
  by code_simp

lemma ex_delete_link:
  "deleteBookmark ex_ctx ''b1'' ex_world =
     (Inr (),
      \<lparr>db = ex_db\<lparr>bookmarks := [ex_bookmark ''b2'' ''alice'' 20, ex_bookmark ''b3'' ''bob'' 30,
                                 ex_bookmark ''b4'' ''alice'' 40],
                  bookmarkLinks := [], tagsOnBookmarks := []\<rparr>,
        effects = [Add SearchIndexingQueue ''search_indexing''
                     \<lparr>bookmarkId = ''b1'', indexing = Some Delete\<rparr>]\<rparr>)"
  by code_simp

text \<open>
  C4, as amended. For an authenticated caller: deleting a bookmark id that no row has
  fails with NOT_FOUND and leaves the world as it was (so nothing is released). Deleting
  a bookmark the caller owns succeeds and removes at least one row; it releases exactly
  one asset, the one of the bookmark's asset row, for the caller, when the bookmark has an
  asset row, and releases nothing when it has none.
\<close>

theorem deleteBookmark_releases:
  assumes "ctx_user ctx = Some uid"
  shows "(find (\<lambda>b. bookmark_id b = bid) (bookmarks (db w)) = None \<longrightarrow>
            deleteBookmark ctx bid w = (Inl (TRPCError NOT_FOUND ''Bookmark not found''), w)) \<and>
         (\<forall>b. find (\<lambda>b. bookmark_id b = bid) (bookmarks (db w)) = Some b \<and> bookmark_userId b = uid \<longrightarrow>
            (\<exists>w'. deleteBookmark ctx bid w = (Inr (), w') \<and>
               length (bookmarks (db w')) < length (bookmarks (db w)) \<and>
               releases (effects w') =
                 releases (effects w) @
                   (case find (\<lambda>a. asset_id a = bid) (bookmarkAssets (db w)) of
                      Some a \<Rightarrow> [(uid, asset_assetId a)]
                    | None \<Rightarrow> [])))"
proof (intro conjI allI impI)
  assume "find (\<lambda>b. bookmark_id b = bid) (bookmarks (db w)) = None"
  with assms show "deleteBookmark ctx bid w = (Inl (TRPCError NOT_FOUND ''Bookmark not found''), w)"
    by (simp add: deleteBookmark_def authedProcedure_user ensureBookmarkOwnership_missing)
next
  fix b
  assume b: "find (\<lambda>b. bookmark_id b = bid) (bookmarks (db w)) = Some b \<and> bookmark_userId b = uid"
  then have mem: "b \<in> set (bookmarks (db w))" and bid: "bookmark_id b = bid"
    by (auto simp: find_Some_iff)
  with b have "filter (\<lambda>b. bookmark_userId b = uid \<and> bookmark_id b = bid) (bookmarks (db w)) \<noteq> []"
    by (auto simp: filter_empty_conv)
  then have changes: "0 < length (filter (\<lambda>b. bookmark_userId b = uid \<and> bookmark_id b = bid) (bookmarks (db w)))"
    by simp
  have shrink: "length (filter (\<lambda>b. \<not> (bookmark_userId b = uid \<and> bookmark_id b = bid)) (bookmarks (db w)))
      < length (bookmarks (db w))"
    using b mem bid by (intro length_filter_less [of b]) auto
  from assms b changes shrink
  show "\<exists>w'. deleteBookmark ctx bid w = (Inr (), w') \<and>
               length (bookmarks (db w')) < length (bookmarks (db w)) \<and>
               releases (effects w') =
                 releases (effects w) @
                   (case find (\<lambda>a. asset_id a = bid) (bookmarkAssets (db w)) of
                      Some a \<Rightarrow> [(uid, asset_assetId a)]
                    | None \<Rightarrow> [])"
    by (cases "find (\<lambda>a. asset_id a = bid) (bookmarkAssets (db w))")
       (simp_all add: deleteBookmark_def authedProcedure_user ensureBookmarkOwnership_owner
          Let_def add_def deleteAsset_def deleteBookmarks_def releases_append)
qed


theorem deleteBookmark_releases_witness:
  "deleteBookmark ex_ctx ''zz'' ex_world =
     (Inl (TRPCError NOT_FOUND ''Bookmark not found''), ex_world) \<and>
   releases (effects (snd (deleteBookmark ex_ctx ''b2'' ex_world))) = [(''alice'', ''a1'')] \<and>
   releases (effects (snd (deleteBookmark ex_ctx ''b1'' ex_world))) = [] \<and>
   map bookmark_id (bookmarks (db (snd (deleteBookmark ex_ctx ''b2'' ex_world)))) =
     [''b1'', ''b3'', ''b4'']"
  unfolding ex_delete_missing ex_delete_asset ex_delete_link
  using deleteBookmark_releases [OF ex_user, of "''b2''" ex_world]
  by (simp add: ex_bookmark_def)

text \<open>
  The claim C4 as it was stated also says that deleting a bookmark id that does not exist
  is a no-op and not an error. On the small store no bookmark has the id \<open>zz\<close>, and
  deleting it is the error NOT_FOUND.
\<close>

theorem deleteBookmark_missing_is_error:
  "find (\<lambda>b. bookmark_id b = ''zz'') (bookmarks (db ex_world)) = None \<and>
   fst (deleteBookmark ex_ctx ''zz'' ex_world) = Inl (TRPCError NOT_FOUND ''Bookmark not found'')"
  by code_simp

section \<open>What a search and a read return\<close>

lemma rest_toZodSchema: "rest (toZodSchema (withRelations d b)) = b"
  by (simp add: toZodSchema_def withRelations_def)

lemma content_toZodSchema:
  "content (toZodSchema (withRelations d b)) = contentOfVariants d (bookmark_id b)"
  by (simp add: toZodSchema_def withRelations_def contentOfVariants_def
      split: option.splits)

lemma searchBookmarks_Inr:
  assumes "ctx_user ctx = Some uid" and "searchBookmarks ctx env s w = (Inr r, w')"
  shows "\<exists>client. searchIdxClient env = Some client \<and>
           w' = w\<lparr>effects := effects w @
                  [Search s \<lparr>filter_param = [ownerFilter uid], showRankingScore = True,
                     attributesToRetrieve = [''id''], sort_param = [''createdAt:desc'']\<rparr>]\<rparr> \<and>
           set (resp_bookmarks r) \<subseteq>
             (\<lambda>b. toZodSchema (withRelations (db w) b)) `
               {b \<in> set (bookmarks (db w)). bookmark_userId b = uid}"
  using assms
  by (auto simp: searchBookmarks_def authedProcedure_user Let_def
      split: option.splits if_splits)

lemma searchBookmarks_total:
  assumes "ctx_user ctx = Some uid" and "searchIdxClient env = Some client"
  shows "\<exists>r w'. searchBookmarks ctx env s w = (Inr r, w')"
  using assms by (simp add: searchBookmarks_def authedProcedure_user Let_def)

lemma ex_search:
  "searchBookmarks ex_ctx ex_env ''milk'' ex_world =
     (Inr \<lparr>resp_bookmarks =
             [\<lparr>rest = ex_bookmark ''b4'' ''alice'' 40, content = TextContent [], tags = []\<rparr>,
              \<lparr>rest = ex_bookmark ''b1'' ''alice'' 10,
                content = LinkContent \<lparr>link_id = ''b1'', link_url = ''https://example.com'',
                  link_title = None, link_description = None, link_imageUrl = None,
                  link_crawledAt = None\<rparr>,
                tags = [\<lparr>ztag_attachedBy = AI,
                         ztag_tag = Some \<lparr>tag_id = ''t1'', tag_name = ''news'',
                                           tag_userId = ''alice''\<rparr>\<rparr>]\<rparr>],
           nextCursor = None\<rparr>,
      ex_world\<lparr>effects := [Search ''milk''
        \<lparr>filter_param = [''userId = '' @ [CHR 0x27] @ ''alice'' @ [CHR 0x27]], showRankingScore = True,
         attributesToRetrieve = [''id''], sort_param = [''createdAt:desc'']\<rparr>]\<rparr>)"
  by code_simp

lemma ex_get_text:
  "getBookmark ex_ctx ''b4'' ex_world =
     (Inr \<lparr>rest = ex_bookmark ''b4'' ''alice'' 40, content = TextContent [], tags = []\<rparr>, ex_world)"
  by code_simp

lemma ex_get_unknown:
  "getBookmark ex_ctx ''b4'' (ex_world\<lparr>db := ex_db\<lparr>bookmarkTexts := []\<rparr>\<rparr>) =
     (Inr \<lparr>rest = ex_bookmark ''b4'' ''alice'' 40, content = UnknownContent, tags = []\<rparr>,
      ex_world\<lparr>db := ex_db\<lparr>bookmarkTexts := []\<rparr>\<rparr>)"
  by code_simp

text \<open>
  C6. Whatever hits the search engine answers with, every bookmark searchBookmarks
  returns is a row of the Bookmark Store whose userId is the caller's id; the one query
  the call sends to the engine carries the owner filter for the caller's id; and the
  call does not write to the database.
\<close>

theorem search_owner_scoped:
  assumes "ctx_user ctx = Some uid" and "searchBookmarks ctx env s w = (Inr r, w')"
  shows "(\<forall>z \<in> set (resp_bookmarks r).
            bookmark_userId (rest z) = uid \<and> rest z \<in> set (bookmarks (db w))) \<and>
         (\<exists>params. effects w' = effects w @ [Search s params] \<and>
            filter_param params = [ownerFilter uid]) \<and>
         db w' = db w"
proof -
  from searchBookmarks_Inr [OF assms] obtain client where
    w': "w' = w\<lparr>effects := effects w @
                  [Search s \<lparr>filter_param = [ownerFilter uid], showRankingScore = True,
                     attributesToRetrieve = [''id''], sort_param = [''createdAt:desc'']\<rparr>]\<rparr>" and
    sub: "set (resp_bookmarks r) \<subseteq>
             (\<lambda>b. toZodSchema (withRelations (db w) b)) `
               {b \<in> set (bookmarks (db w)). bookmark_userId b = uid}"
    by blast
  from sub have "\<forall>z \<in> set (resp_bookmarks r).
            bookmark_userId (rest z) = uid \<and> rest z \<in> set (bookmarks (db w))"
    by (auto simp: rest_toZodSchema)
  moreover from w' have "\<exists>params. effects w' = effects w @ [Search s params] \<and>
            filter_param params = [ownerFilter uid]" by simp
  moreover from w' have "db w' = db w" by simp
  ultimately show ?thesis by blast
qed

theorem search_owner_scoped_witness:
  "map (\<lambda>z. (bookmark_id (rest z), bookmark_userId (rest z)))
     (resp_bookmarks (projr (fst (searchBookmarks ex_ctx ex_env ''milk'' ex_world)))) =
     [(''b4'', ''alice''), (''b1'', ''alice'')] \<and>
   effects (snd (searchBookmarks ex_ctx ex_env ''milk'' ex_world)) =
     [Search ''milk''
        \<lparr>filter_param = [''userId = '' @ [CHR 0x27] @ ''alice'' @ [CHR 0x27]], showRankingScore = True,
         attributesToRetrieve = [''id''], sort_param = [''createdAt:desc'']\<rparr>]"
  unfolding ex_search
  using search_owner_scoped [OF ex_user ex_search]
  by (simp add: ex_bookmark_def ex_world_def)

text \<open>
  C9. The conversion to the public schema is total over the presence of the variant rows.
  getBookmark on a bookmark the caller owns succeeds, and searchBookmarks with a
  configured engine succeeds; the content of every bookmark they return is the link
  variant if a link row exists, otherwise the text variant with a null text as the empty
  string, otherwise the asset variant, and "unknown" when no variant row exists.
\<close>

theorem content_by_variant_presence:
  assumes "ctx_user ctx = Some uid"
  shows "(\<forall>b. find (\<lambda>b. bookmark_id b = bid) (bookmarks (db w)) = Some b \<and> bookmark_userId b = uid \<longrightarrow>
            (\<exists>z. getBookmark ctx bid w = (Inr z, w) \<and> bookmark_id (rest z) = bid \<and>
                 content z = contentOfVariants (db w) bid)) \<and>
         (\<forall>client. searchIdxClient env = Some client \<longrightarrow>
            (\<exists>r w'. searchBookmarks ctx env s w = (Inr r, w') \<and>
               (\<forall>z \<in> set (resp_bookmarks r).
                  content z = contentOfVariants (db w) (bookmark_id (rest z)))))"
proof (intro conjI allI impI)
  fix b
  assume b: "find (\<lambda>b. bookmark_id b = bid) (bookmarks (db w)) = Some b \<and> bookmark_userId b = uid"
  then have "b \<in> set (bookmarks (db w))" and "bookmark_id b = bid"
    by (auto simp: find_Some_iff)
  with b have "find (\<lambda>b. bookmark_userId b = uid \<and> bookmark_id b = bid) (bookmarks (db w)) \<noteq> None"
    by (auto simp: find_None_iff)
  then obtain b' where
    b': "find (\<lambda>b. bookmark_userId b = uid \<and> bookmark_id b = bid) (bookmarks (db w)) = Some b'"
    by blast
  then have "bookmark_id b' = bid" by (auto simp: find_Some_iff)
  with assms b b'
  show "\<exists>z. getBookmark ctx bid w = (Inr z, w) \<and> bookmark_id (rest z) = bid \<and>
             content z = contentOfVariants (db w) bid"
    by (simp add: getBookmark_def authedProcedure_user ensureBookmarkOwnership_owner
        rest_toZodSchema content_toZodSchema)
next
  fix client assume "searchIdxClient env = Some client"
  from searchBookmarks_total [OF assms this, of s w] obtain r w' where
    run: "searchBookmarks ctx env s w = (Inr r, w')" by blast
  from searchBookmarks_Inr [OF assms run]
  have "\<forall>z \<in> set (resp_bookmarks r). content z = contentOfVariants (db w) (bookmark_id (rest z))"
    by (auto simp: rest_toZodSchema content_toZodSchema)
  with run show "\<exists>r w'. searchBookmarks ctx env s w = (Inr r, w') \<and>
               (\<forall>z \<in> set (resp_bookmarks r).
                  content z = contentOfVariants (db w) (bookmark_id (rest z)))"
    by blast
qed

theorem content_by_variant_presence_witness:
  "content (projr (fst (getBookmark ex_ctx ''b4'' ex_world))) = TextContent [] \<and>
   contentOfVariants (db ex_world) ''b4'' = TextContent [] \<and>
   content (projr (fst (getBookmark ex_ctx ''b4'' (ex_world\<lparr>db := ex_db\<lparr>bookmarkTexts := []\<rparr>\<rparr>)))) =
     UnknownContent \<and>
   map content (resp_bookmarks (projr (fst (searchBookmarks ex_ctx ex_env ''milk'' ex_world)))) =
     [TextContent [],
      LinkContent \<lparr>link_id = ''b1'', link_url = ''https://example.com'',
                  link_title = None, link_description = None, link_imageUrl = None,
                  link_crawledAt = None\<rparr>]"
  unfolding ex_get_text ex_get_unknown ex_search
  using content_by_variant_presence [OF ex_user, of "''b4''" ex_world ex_env "''milk''"]
  by (simp add: contentOfVariants_def ex_world_def ex_db_def)

section \<open>updateTags\<close>

lemma insertBookmarkTags_extends: "\<exists>ys. insertBookmarkTags rows tbl = tbl @ ys"
  by (induction rows arbitrary: tbl) (auto, metis append.assoc)

lemma insertBookmarkTags_keeps_named:
  "tagsNamed uid n tbl \<noteq> [] \<Longrightarrow> tagsNamed uid n (insertBookmarkTags rows tbl) = tagsNamed uid n tbl"
proof (induction rows arbitrary: tbl)
  case Nil
  then show ?case by simp
next
  case (Cons r rows)
  show ?case
  proof (cases "list_ex (\<lambda>g. tag_id g = tag_id r \<or>
                        (tag_userId g = tag_userId r \<and> tag_name g = tag_name r)) tbl")
    case True
    with Cons show ?thesis by simp
  next
    case False
    from Cons.prems obtain g where "g \<in> set tbl" "tag_userId g = uid" "tag_name g = n"
      by (auto simp: tagsNamed_def filter_empty_conv)
    with False have "\<not> (tag_userId r = uid \<and> tag_name r = n)"
      by (auto simp: list_ex_iff)
    then have same: "tagsNamed uid n (tbl @ [r]) = tagsNamed uid n tbl"
      by (auto simp: tagsNamed_def)
    with Cons.prems Cons.IH [of "tbl @ [r]"] False show ?thesis by simp
  qed
qed

lemma insertTagsOnBookmarks_subset:
  "set (insertTagsOnBookmarks rows tbl) \<subseteq> set tbl \<union> set rows"
proof (induction rows arbitrary: tbl)
  case Nil
  then show ?case by simp
next
  case (Cons r rows)
  from Cons.IH [of tbl] Cons.IH [of "tbl @ [r]"] show ?case by (auto split: if_splits)
qed

lemma insertTagsOnBookmarks_attachedAs:
  "attachedAs bid i (insertTagsOnBookmarks (map (humanAttachment bid uid) ids) tbl) =
     (if attachedAs bid i tbl \<noteq> [] then attachedAs bid i tbl
      else if i \<in> set ids then [humanAttachment bid uid i] else [])"
proof (induction ids arbitrary: tbl)
  case Nil
  then show ?case by simp
next
  case (Cons j ids)
  let ?r = "humanAttachment bid uid j"
  have hit: "list_ex (\<lambda>t. tob_bookmarkId t = tob_bookmarkId ?r \<and> tob_tagId t = tob_tagId ?r) tbl
      \<longleftrightarrow> attachedAs bid j tbl \<noteq> []"
    by (auto simp: list_ex_iff attachedAs_def filter_empty_conv humanAttachment_def)
  have snoc: "attachedAs bid i (tbl @ [?r]) =
      attachedAs bid i tbl @ (if i = j then [?r] else [])"
    by (auto simp: attachedAs_def humanAttachment_def)
  show ?case
  proof (cases "attachedAs bid j tbl \<noteq> []")
    case True
    with hit Cons.IH [of tbl] show ?thesis by auto
  next
    case False
    with hit Cons.IH [of "tbl @ [?r]"] snoc show ?thesis by auto
  qed
qed


lemma detached_nothing: "ut_detach input = [] \<Longrightarrow> detached input tbl = tbl"
  by (simp add: detached_def)

lemma updateTags_tx_eq:
  "updateTags_tx uid env input d =
     (if ut_attach input = []
      then (Inr (), d\<lparr>tagsOnBookmarks := detached input (tagsOnBookmarks d)\<rparr>)
      else if allIds uid input (insertBookmarkTags (toBeCreatedTags uid env input) (bookmarkTags d)) = []
      then (Inl (QueryBuilderError ''values() must be called with at least one value''),
            d\<lparr>bookmarkTags :=
                 insertBookmarkTags (toBeCreatedTags uid env input) (bookmarkTags d),
               tagsOnBookmarks := detached input (tagsOnBookmarks d)\<rparr>)
      else (Inr (), d\<lparr>bookmarkTags :=
                        insertBookmarkTags (toBeCreatedTags uid env input) (bookmarkTags d),
                      tagsOnBookmarks :=
                        insertTagsOnBookmarks
                          (map (humanAttachment (ut_bookmarkId input) uid)
                             (allIds uid input
                                (insertBookmarkTags (toBeCreatedTags uid env input) (bookmarkTags d))))
                          (detached input (tagsOnBookmarks d))\<rparr>))"
proof -
  have created: "length (toBeCreatedTags uid env input) > 0 \<or>
      insertBookmarkTags (toBeCreatedTags uid env input) (bookmarkTags d) = bookmarkTags d"
    by (cases "toBeCreatedTags uid env input") simp_all
  have dropped: "(if length (ut_detach input) > 0
           then d\<lparr>tagsOnBookmarks := detached input (tagsOnBookmarks d)\<rparr> else d) =
        d\<lparr>tagsOnBookmarks := detached input (tagsOnBookmarks d)\<rparr>"
    by (simp add: detached_nothing)
  show ?thesis
    unfolding updateTags_tx_def detached_def [symmetric] toBeCreatedTags_def [symmetric] dropped
    using created
    by (auto simp: Let_def allIds_def humanAttachment_def [abs_def])
qed

lemma updateTags_owner:
  assumes "ctx_user ctx = Some uid"
    and "find (\<lambda>b. bookmark_id b = ut_bookmarkId input) (bookmarks (db w)) = Some b"
    and "bookmark_userId b = uid"
  shows "updateTags ctx env input w = transaction (updateTags_tx uid env input) w"
  using assms by (simp add: updateTags_def authedProcedure_user ensureBookmarkOwnership_owner)

lemma attachedAs_detached:
  "i \<notin> set (ut_detach input) \<Longrightarrow>
   attachedAs (ut_bookmarkId input) i (detached input tbl) = attachedAs (ut_bookmarkId input) i tbl"
  by (induction tbl) (auto simp: attachedAs_def detached_def)

lemma attachedAs_detached_gone:
  "i \<in> set (ut_detach input) \<Longrightarrow> attachedAs (ut_bookmarkId input) i (detached input tbl) = []"
  by (induction tbl) (auto simp: attachedAs_def detached_def)

lemma allIds_member:
  "g \<in> set tbl \<Longrightarrow> tag_userId g = uid \<Longrightarrow> tag_name g \<in> set (map att_tag (ut_attach input)) \<Longrightarrow>
   tag_id g \<in> set (allIds uid input tbl)"
  by (auto simp: allIds_def)

lemma ex_reattach:
  "updateTags ex_ctx ex_env
     \<lparr>ut_bookmarkId = ''b1'',
      ut_attach = [\<lparr>att_tagId = None, att_tag = ''news''\<rparr>], ut_detach = [''t2'']\<rparr> ex_world =
   (Inr (), ex_world\<lparr>effects := [TxBegin, TxCommit]\<rparr>)"
  by code_simp

lemma ex_detach_attach:
  "updateTags ex_ctx ex_env
     \<lparr>ut_bookmarkId = ''b1'',
      ut_attach = [\<lparr>att_tagId = Some ''t1'', att_tag = ''news''\<rparr>], ut_detach = [''t1'']\<rparr> ex_world =
   (Inr (),
    \<lparr>db = ex_db\<lparr>tagsOnBookmarks := [humanAttachment ''b1'' ''alice'' ''t1'']\<rparr>,
      effects = [TxBegin, TxCommit]\<rparr>)"
  by code_simp

text \<open>
  C5. Attaching a tag name that is already attached is idempotent. When the caller owns
  the bookmark, has exactly one tag row of the name, and the bookmark has exactly one
  attachment row for that tag (of any provenance), an updateTags call whose attach list
  names the tag and whose detach list does not hold its id succeeds, and afterwards the
  tag rows of that owner and name and the attachment rows of that bookmark and tag are
  the same single rows: the provenance is the one of the first attachment.
\<close>

theorem attach_idempotent:
  assumes user: "ctx_user ctx = Some uid"
    and found: "find (\<lambda>b. bookmark_id b = ut_bookmarkId input) (bookmarks (db w)) = Some b"
    and owner: "bookmark_userId b = uid"
    and tag: "tagsNamed uid n (bookmarkTags (db w)) = [g]"
    and attached: "attachedAs (ut_bookmarkId input) (tag_id g) (tagsOnBookmarks (db w)) = [a]"
    and named: "n \<in> set (map att_tag (ut_attach input))"
    and kept: "tag_id g \<notin> set (ut_detach input)"
  shows "\<exists>w'. updateTags ctx env input w = (Inr (), w') \<and>
           tagsNamed uid n (bookmarkTags (db w')) = [g] \<and>
           attachedAs (ut_bookmarkId input) (tag_id g) (tagsOnBookmarks (db w')) = [a]"
proof -
  let ?tags = "insertBookmarkTags (toBeCreatedTags uid env input) (bookmarkTags (db w))"
  let ?ids = "allIds uid input ?tags"
  let ?rows = "insertTagsOnBookmarks (map (humanAttachment (ut_bookmarkId input) uid) ?ids)
                 (detached input (tagsOnBookmarks (db w)))"
  from named have nonempty: "ut_attach input \<noteq> []" by auto
  from tag have one: "tagsNamed uid n ?tags = [g]"
    by (simp add: insertBookmarkTags_keeps_named)
  then have "g \<in> set (tagsNamed uid n ?tags)" by simp
  then have "g \<in> set ?tags" and "tag_userId g = uid" and "tag_name g = n"
    by (auto simp: tagsNamed_def)
  with named have "tag_id g \<in> set ?ids" by (intro allIds_member) auto
  then have ids: "?ids \<noteq> []" by auto
  from attached kept
  have "attachedAs (ut_bookmarkId input) (tag_id g) (detached input (tagsOnBookmarks (db w))) = [a]"
    by (simp add: attachedAs_detached)
  then have still: "attachedAs (ut_bookmarkId input) (tag_id g) ?rows = [a]"
    by (simp add: insertTagsOnBookmarks_attachedAs)
  from nonempty ids
  have "updateTags_tx uid env input (db w) =
          (Inr (), (db w)\<lparr>bookmarkTags := ?tags, tagsOnBookmarks := ?rows\<rparr>)"
    by (simp add: updateTags_tx_eq)
  then have "updateTags ctx env input w =
      (Inr (), w\<lparr>db := (db w)\<lparr>bookmarkTags := ?tags, tagsOnBookmarks := ?rows\<rparr>,
                 effects := effects w @ [TxBegin, TxCommit]\<rparr>)"
    by (simp add: updateTags_owner [OF user found owner] transaction_def)
  with one still show ?thesis by simp
qed

theorem attach_idempotent_witness:
  "updateTags ex_ctx ex_env
     \<lparr>ut_bookmarkId = ''b1'',
      ut_attach = [\<lparr>att_tagId = None, att_tag = ''news''\<rparr>], ut_detach = [''t2'']\<rparr> ex_world =
     (Inr (), ex_world\<lparr>effects := [TxBegin, TxCommit]\<rparr>) \<and>
   tagsNamed ''alice'' ''news'' (bookmarkTags (db ex_world)) =
     [\<lparr>tag_id = ''t1'', tag_name = ''news'', tag_userId = ''alice''\<rparr>] \<and>
   attachedAs ''b1'' ''t1'' (tagsOnBookmarks (db ex_world)) =
     [\<lparr>tob_bookmarkId = ''b1'', tob_tagId = ''t1'', tob_attachedBy = AI, tob_userId = ''alice''\<rparr>]"
proof -
  let ?input = "\<lparr>ut_bookmarkId = ''b1'',
      ut_attach = [\<lparr>att_tagId = None, att_tag = ''news''\<rparr>], ut_detach = [''t2'']\<rparr>"
  have found: "find (\<lambda>b. bookmark_id b = ut_bookmarkId ?input) (bookmarks (db ex_world)) =
      Some (ex_bookmark ''b1'' ''alice'' 10)"
    by code_simp
  have owner: "bookmark_userId (ex_bookmark ''b1'' ''alice'' 10) = ''alice''"
    by (simp add: ex_bookmark_def)
  have tag: "tagsNamed ''alice'' ''news'' (bookmarkTags (db ex_world)) =
     [\<lparr>tag_id = ''t1'', tag_name = ''news'', tag_userId = ''alice''\<rparr>]"
    by code_simp
  have attached: "attachedAs (ut_bookmarkId ?input)
       (tag_id \<lparr>tag_id = ''t1'', tag_name = ''news'', tag_userId = ''alice''\<rparr>)
       (tagsOnBookmarks (db ex_world)) =
     [\<lparr>tob_bookmarkId = ''b1'', tob_tagId = ''t1'', tob_attachedBy = AI, tob_userId = ''alice''\<rparr>]"
    by code_simp
  have named: "''news'' \<in> set (map att_tag (ut_attach ?input))" by simp
  have kept: "tag_id \<lparr>tag_id = ''t1'', tag_name = ''news'', tag_userId = ''alice''\<rparr>
      \<notin> set (ut_detach ?input)" by simp
  from attach_idempotent [OF ex_user found owner tag attached named kept, of ex_env]
  show ?thesis
    unfolding ex_reattach using tag attached by simp
qed

text \<open>
  C10, as amended. When the caller owns the bookmark, updateTags applies the detaches
  before the attaches, and attach resolves tags by the caller's tag names (not by the
  tagId of the attach entry): in a successful call, a tag of the caller whose id is listed
  in detach and whose name is listed in attach ends the call attached by exactly one row,
  with provenance human. In every call, successful or not, each attachment row the store
  has gained has provenance human and belongs to the given bookmark.
\<close>

theorem detach_then_attach:
  assumes user: "ctx_user ctx = Some uid"
    and found: "find (\<lambda>b. bookmark_id b = ut_bookmarkId input) (bookmarks (db w)) = Some b"
    and owner: "bookmark_userId b = uid"
  shows "(\<forall>w'. updateTags ctx env input w = (Inr (), w') \<longrightarrow>
            (\<forall>g. g \<in> set (bookmarkTags (db w)) \<and> tag_userId g = uid \<and>
                 tag_name g \<in> set (map att_tag (ut_attach input)) \<and>
                 tag_id g \<in> set (ut_detach input) \<longrightarrow>
                 attachedAs (ut_bookmarkId input) (tag_id g) (tagsOnBookmarks (db w')) =
                   [humanAttachment (ut_bookmarkId input) uid (tag_id g)])) \<and>
         (\<forall>res w'. updateTags ctx env input w = (res, w') \<longrightarrow>
            (\<forall>t \<in> set (tagsOnBookmarks (db w')). t \<notin> set (tagsOnBookmarks (db w)) \<longrightarrow>
                 tob_attachedBy t = Human \<and> tob_bookmarkId t = ut_bookmarkId input))"
proof -
  let ?tags = "insertBookmarkTags (toBeCreatedTags uid env input) (bookmarkTags (db w))"
  let ?ids = "allIds uid input ?tags"
  let ?rows = "insertTagsOnBookmarks (map (humanAttachment (ut_bookmarkId input) uid) ?ids)
                 (detached input (tagsOnBookmarks (db w)))"
  note run_eq = updateTags_owner [OF user found owner]
  have both: "attachedAs (ut_bookmarkId input) (tag_id g) (tagsOnBookmarks (db w')) =
                [humanAttachment (ut_bookmarkId input) uid (tag_id g)]"
    if run: "updateTags ctx env input w = (Inr (), w')"
      and g: "g \<in> set (bookmarkTags (db w)) \<and> tag_userId g = uid \<and>
              tag_name g \<in> set (map att_tag (ut_attach input)) \<and>
              tag_id g \<in> set (ut_detach input)"
    for w' g
  proof -
    from g have nonempty: "ut_attach input \<noteq> []" by auto
    from insertBookmarkTags_extends [of "toBeCreatedTags uid env input" "bookmarkTags (db w)"] g
    have "g \<in> set ?tags" by auto
    with g have mem: "tag_id g \<in> set ?ids" by (intro allIds_member) auto
    then have ids: "?ids \<noteq> []" by auto
    from g have gone: "attachedAs (ut_bookmarkId input) (tag_id g)
        (detached input (tagsOnBookmarks (db w))) = []"
      by (simp add: attachedAs_detached_gone)
    from nonempty ids
    have "updateTags_tx uid env input (db w) =
            (Inr (), (db w)\<lparr>bookmarkTags := ?tags, tagsOnBookmarks := ?rows\<rparr>)"
      by (simp add: updateTags_tx_eq)
    with run have "tagsOnBookmarks (db w') = ?rows"
      by (auto simp: run_eq transaction_def)
    with gone mem show ?thesis
      by (simp add: insertTagsOnBookmarks_attachedAs)
  qed
  have human: "tob_attachedBy t = Human \<and> tob_bookmarkId t = ut_bookmarkId input"
    if run: "updateTags ctx env input w = (res, w')"
      and t: "t \<in> set (tagsOnBookmarks (db w'))" and new: "t \<notin> set (tagsOnBookmarks (db w))"
    for res w' t
  proof -
    from run have "tagsOnBookmarks (db w') = detached input (tagsOnBookmarks (db w)) \<or>
        tagsOnBookmarks (db w') = ?rows"
      by (auto simp: run_eq transaction_def updateTags_tx_eq split: if_splits)
    with t insertTagsOnBookmarks_subset
           [of "map (humanAttachment (ut_bookmarkId input) uid) ?ids"
               "detached input (tagsOnBookmarks (db w))"]
    have "t \<in> set (detached input (tagsOnBookmarks (db w))) \<or>
          t \<in> set (map (humanAttachment (ut_bookmarkId input) uid) ?ids)"
      by auto
    with new have "t \<in> set (map (humanAttachment (ut_bookmarkId input) uid) ?ids)"
      by (auto simp: detached_def)
    then show ?thesis by (auto simp: humanAttachment_def)
  qed
  from both human show ?thesis by blast
qed

theorem detach_then_attach_witness:
  "updateTags ex_ctx ex_env
     \<lparr>ut_bookmarkId = ''b1'',
      ut_attach = [\<lparr>att_tagId = Some ''t1'', att_tag = ''news''\<rparr>], ut_detach = [''t1'']\<rparr> ex_world =
     (Inr (),
      \<lparr>db = ex_db\<lparr>tagsOnBookmarks := [humanAttachment ''b1'' ''alice'' ''t1'']\<rparr>,
        effects = [TxBegin, TxCommit]\<rparr>) \<and>
   attachedAs ''b1'' ''t1'' (tagsOnBookmarks (db ex_world)) =
     [\<lparr>tob_bookmarkId = ''b1'', tob_tagId = ''t1'', tob_attachedBy = AI, tob_userId = ''alice''\<rparr>]"
proof -
  let ?input = "\<lparr>ut_bookmarkId = ''b1'',
      ut_attach = [\<lparr>att_tagId = Some ''t1'', att_tag = ''news''\<rparr>], ut_detach = [''t1'']\<rparr>"
  have found: "find (\<lambda>b. bookmark_id b = ut_bookmarkId ?input) (bookmarks (db ex_world)) =
      Some (ex_bookmark ''b1'' ''alice'' 10)"
    by code_simp
  have owner: "bookmark_userId (ex_bookmark ''b1'' ''alice'' 10) = ''alice''"
    by (simp add: ex_bookmark_def)
  have before: "attachedAs ''b1'' ''t1'' (tagsOnBookmarks (db ex_world)) =
     [\<lparr>tob_bookmarkId = ''b1'', tob_tagId = ''t1'', tob_attachedBy = AI, tob_userId = ''alice''\<rparr>]"
    by code_simp
  from detach_then_attach [OF ex_user found owner, of ex_env] before
  show ?thesis
    unfolding ex_detach_attach by simp
qed

text \<open>
  The claim C10 as it was stated says that a tag id listed in both detach and attach
  ends the call attached. On the small store the tag \<open>t1\<close> is attached to \<open>b1\<close>; a call
  that lists \<open>t1\<close> in detach and in the tagId of an attach entry named \<open>food\<close> (the name
  of the tag \<open>t2\<close>) succeeds and leaves \<open>t1\<close> detached: the attach went to \<open>t2\<close>.
\<close>

theorem detach_wins_when_name_differs:
  "fst (updateTags ex_ctx ex_env
          \<lparr>ut_bookmarkId = ''b1'',
           ut_attach = [\<lparr>att_tagId = Some ''t1'', att_tag = ''food''\<rparr>],
           ut_detach = [''t1'']\<rparr> ex_world) = Inr () \<and>
   attachedAs ''b1'' ''t1''
     (tagsOnBookmarks (db (snd (updateTags ex_ctx ex_env
          \<lparr>ut_bookmarkId = ''b1'',
           ut_attach = [\<lparr>att_tagId = Some ''t1'', att_tag = ''food''\<rparr>],
           ut_detach = [''t1'']\<rparr> ex_world)))) = [] \<and>
   tagsOnBookmarks (db (snd (updateTags ex_ctx ex_env
          \<lparr>ut_bookmarkId = ''b1'',
           ut_attach = [\<lparr>att_tagId = Some ''t1'', att_tag = ''food''\<rparr>],
           ut_detach = [''t1'']\<rparr> ex_world))) = [humanAttachment ''b1'' ''alice'' ''t2'']"
  by code_simp

section \<open>getBookmarks: the page and the next cursor\<close>

subsection \<open>Left joins\<close>

lemma leftJoin_append: "leftJoin on (xs @ ys) rs = leftJoin on xs rs @ leftJoin on ys rs"
  by (simp add: leftJoin_def)

lemma leftJoin_Nil: "leftJoin on [] rs = []"
  by (simp add: leftJoin_def)

lemma leftJoin_concat: "leftJoin on (concat xss) rs = concat (map (\<lambda>xs. leftJoin on xs rs) xss)"
  by (induction xss) (simp_all add: leftJoin_Nil leftJoin_append)

lemma leftJoin_singles: "leftJoin on xs rs = concat (map (\<lambda>x. leftJoin on [x] rs) xs)"
  by (induction xs) (simp_all add: leftJoin_def)

lemma leftJoin_fst: "r \<in> set (leftJoin on ls rs) \<Longrightarrow> fst r \<in> set ls"
  by (auto simp: leftJoin_def split: if_splits)

lemma leftJoin_nonempty: "ls \<noteq> [] \<Longrightarrow> leftJoin on ls rs \<noteq> []"
  by (cases ls) (auto simp: leftJoin_def)

lemma leftJoin_Some: "(l, Some r) \<in> set (leftJoin on ls rs) \<Longrightarrow> on l r"
  by (auto simp: leftJoin_def split: if_splits)

lemma joinTags_singles: "joinTags d sq = concat (map (\<lambda>b. joinTags d [b]) sq)"
proof -
  have "joinTags d sq =
      leftJoin (\<lambda>(b, a) t. case a of None \<Rightarrow> False | Some a' \<Rightarrow> tob_tagId a' = tag_id t)
       (concat (map (\<lambda>b. leftJoin (\<lambda>b a. bookmark_id b = tob_bookmarkId a) [b] (tagsOnBookmarks d)) sq))
       (bookmarkTags d)"
    unfolding joinTags_def by (subst leftJoin_singles) simp
  then show ?thesis
    by (simp add: leftJoin_concat joinTags_def map_concat comp_def)
qed

lemma joinContent_append: "joinContent d (xs @ ys) = joinContent d xs @ joinContent d ys"
  by (simp add: joinContent_def leftJoin_append)

lemma joinContent_concat:
  "joinContent d (concat xss) = concat (map (joinContent d) xss)"
proof (induction xss)
  case Nil
  show ?case by (simp add: joinContent_def leftJoin_Nil)
next
  case (Cons xs xss)
  then show ?case by (simp add: joinContent_append)
qed

lemma joined_blocks: "joinContent d (joinTags d sq) = concat (map (block d) sq)"
  by (subst joinTags_singles) (simp add: joinContent_concat block_def [abs_def] comp_def)

lemma joinTags_rows:
  "r \<in> set (joinTags d [b]) \<Longrightarrow>
   fst (fst r) = b \<and> (snd r \<noteq> None \<longrightarrow> snd (fst r) \<noteq> None)"
proof -
  assume r: "r \<in> set (joinTags d [b])"
  obtain x a t where [simp]: "r = ((x, a), t)" by (cases r) auto
  from r have "(x, a) \<in> set (leftJoin (\<lambda>b a. bookmark_id b = tob_bookmarkId a) [b] (tagsOnBookmarks d))"
    unfolding joinTags_def by (auto dest: leftJoin_fst)
  then have "x = b" by (auto dest: leftJoin_fst)
  moreover have "a \<noteq> None" if "t \<noteq> None"
  proof -
    from that obtain t' where "t = Some t'" by auto
    with r have "(case a of None \<Rightarrow> False | Some a' \<Rightarrow> tob_tagId a' = tag_id t')"
      unfolding joinTags_def by (auto dest: leftJoin_Some)
    then show ?thesis by (auto split: option.splits)
  qed
  ultimately show ?thesis by simp
qed

lemma joinTags_nonempty: "joinTags d [b] \<noteq> []"
  by (simp add: joinTags_def leftJoin_nonempty)

lemma joinContent_rows:
  "r \<in> set (joinContent d rows) \<Longrightarrow>
   ((row_bookmarksSq r, row_tagsOnBookmarks r), row_bookmarkTags r) \<in> set rows"
  by (auto simp: joinContent_def dest!: leftJoin_fst)

lemma joinContent_nonempty: "rows \<noteq> [] \<Longrightarrow> joinContent d rows \<noteq> []"
  by (simp add: joinContent_def leftJoin_nonempty)

lemma block_rows:
  "r \<in> set (block d b) \<Longrightarrow>
   row_bookmarksSq r = b \<and> (row_bookmarkTags r \<noteq> None \<longrightarrow> row_tagsOnBookmarks r \<noteq> None)"
  by (auto simp: block_def dest!: joinContent_rows joinTags_rows)

lemma block_nonempty: "block d b \<noteq> []"
  by (simp add: block_def joinTags_nonempty joinContent_nonempty)


subsection \<open>The order of the joined rows\<close>

lemma sorted_blocks:
  assumes "sorted (map g xs)" and "\<And>x r. r \<in> set (blk x) \<Longrightarrow> f r = g x"
  shows "sorted (map f (concat (map blk xs)))"
  using assms(1)
proof (induction xs)
  case Nil
  show ?case by simp
next
  case (Cons x xs)
  have same: "map f (blk x) = replicate (length (blk x)) (g x)"
    by (auto simp: map_replicate_const [symmetric] assms(2) intro!: map_cong)
  have later: "\<And>y. y \<in> set (map f (concat (map blk xs))) \<Longrightarrow> g x \<le> y"
    using Cons.prems by (auto simp: assms(2))
  from Cons show ?case
    by (auto simp: sorted_append same later assms(2))
qed

lemma selectJoined_blocks:
  assumes "sorted (map (\<lambda>b. - bookmark_createdAt b) sq)"
  shows "selectJoined d sq = concat (map (block d) sq)"
proof -
  have "sorted (map (\<lambda>r. - bookmark_createdAt (row_bookmarksSq r)) (concat (map (block d) sq)))"
    using assms by (rule sorted_blocks) (simp add: block_rows)
  then show ?thesis
    by (simp add: selectJoined_def orderByDesc_def joined_blocks sort_key_id_if_sorted)
qed

subsection \<open>The reduce\<close>

lemma keysRest_pushTag: "keysRest (pushTag k t acc) = keysRest acc"
  by (induction acc) (auto simp: keysRest_def pushTag_def)

lemma keysRest_append: "keysRest (acc @ [(k, z)]) = keysRest acc @ [(k, rest z)]"
  by (simp add: keysRest_def)

lemma map_of_None_keysRest: "map_of acc k = None \<longleftrightarrow> k \<notin> fst ` set (keysRest acc)"
  by (force simp: map_of_eq_None_iff keysRest_def)

lemma map_of_appended: "map_of acc k = None \<Longrightarrow> map_of (acc @ [(k, z)]) k = Some z"
  by (induction acc) auto

lemma reduceStep_ok:
  assumes "row_bookmarkTags row \<noteq> None \<longrightarrow> row_tagsOnBookmarks row \<noteq> None"
    and "bookmark_id (row_bookmarksSq row) \<notin> set objectPrototypeNames"
  shows "\<exists>acc'. reduceStep acc row = Inr acc' \<and>
           keysRest acc' =
             (if bookmark_id (row_bookmarksSq row) \<in> fst ` set (keysRest acc) then keysRest acc
              else keysRest acc @ [(bookmark_id (row_bookmarksSq row), row_bookmarksSq row)])"
proof (cases "map_of acc (bookmark_id (row_bookmarksSq row)) = None")
  case True
  with assms show ?thesis
    by (cases "row_bookmarkTags row"; cases "row_tagsOnBookmarks row")
       (auto simp: reduceStep_def Let_def keysRest_pushTag keysRest_append map_of_appended
          map_of_None_keysRest [symmetric])
next
  case False
  with assms show ?thesis
    by (cases "row_bookmarkTags row"; cases "row_tagsOnBookmarks row")
       (auto simp: reduceStep_def Let_def keysRest_pushTag map_of_None_keysRest [symmetric])
qed

lemma reduceRows_ok:
  assumes "\<forall>r \<in> set rows. (row_bookmarkTags r \<noteq> None \<longrightarrow> row_tagsOnBookmarks r \<noteq> None) \<and>
             bookmark_id (row_bookmarksSq r) \<notin> set objectPrototypeNames"
  shows "\<exists>acc'. reduceRows acc rows = Inr acc' \<and>
           keysRest acc' = addNew (keysRest acc) (map row_bookmarksSq rows)"
  using assms
proof (induction rows arbitrary: acc)
  case Nil
  show ?case by simp
next
  case (Cons row rows)
  then have "row_bookmarkTags row \<noteq> None \<longrightarrow> row_tagsOnBookmarks row \<noteq> None"
    and "bookmark_id (row_bookmarksSq row) \<notin> set objectPrototypeNames" by simp_all
  from reduceStep_ok [OF this, of acc] obtain acc1 where
    step: "reduceStep acc row = Inr acc1" and
    keys: "keysRest acc1 =
             (if bookmark_id (row_bookmarksSq row) \<in> fst ` set (keysRest acc) then keysRest acc
              else keysRest acc @ [(bookmark_id (row_bookmarksSq row), row_bookmarksSq row)])"
    by blast
  from Cons.prems
  have "\<forall>r \<in> set rows. (row_bookmarkTags r \<noteq> None \<longrightarrow> row_tagsOnBookmarks r \<noteq> None) \<and>
          bookmark_id (row_bookmarksSq r) \<notin> set objectPrototypeNames"
    by simp
  from Cons.IH [OF this, of acc1] step keys show ?case by simp
qed

lemma addNew_append: "addNew kr (xs @ ys) = addNew (addNew kr xs) ys"
  by (induction xs arbitrary: kr) simp_all

lemma addNew_present:
  "bookmark_id b \<in> fst ` set kr \<Longrightarrow> addNew kr (replicate n b) = kr"
  by (induction n) simp_all

lemma addNew_replicate:
  "0 < n \<Longrightarrow> bookmark_id b \<notin> fst ` set kr \<Longrightarrow>
   addNew kr (replicate n b) = kr @ [(bookmark_id b, b)]"
  by (cases n) (simp_all add: addNew_present)

lemma block_bookmarks: "map row_bookmarksSq (block d b) = replicate (length (block d b)) b"
  by (auto simp: map_replicate_const [symmetric] block_rows intro!: map_cong)

lemma addNew_blocks:
  assumes "distinct (map bookmark_id sq)"
    and "set (map bookmark_id sq) \<inter> fst ` set kr = {}"
  shows "addNew kr (map row_bookmarksSq (concat (map (block d) sq))) =
           kr @ map (\<lambda>b. (bookmark_id b, b)) sq"
  using assms
proof (induction sq arbitrary: kr)
  case Nil
  show ?case by simp
next
  case (Cons b sq)
  have len: "0 < length (block d b)" using block_nonempty [of d b] by simp
  from Cons.prems have fresh: "bookmark_id b \<notin> fst ` set kr" by auto
  have first: "addNew kr (map row_bookmarksSq (block d b)) = kr @ [(bookmark_id b, b)]"
    by (simp add: block_bookmarks addNew_replicate [OF len fresh])
  from Cons.prems have "distinct (map bookmark_id sq)"
    and "set (map bookmark_id sq) \<inter> fst ` set (kr @ [(bookmark_id b, b)]) = {}"
    by auto
  from Cons.IH [OF this] first show ?case
    by (simp add: addNew_append)
qed

lemma reduce_selected:
  assumes "distinct (map bookmark_id sq)"
    and "\<forall>b \<in> set sq. bookmark_id b \<notin> set objectPrototypeNames"
  shows "\<exists>acc. reduceRows [] (concat (map (block d) sq)) = Inr acc \<and>
           map fst acc = map bookmark_id sq \<and> map rest (map snd acc) = sq"
proof -
  have "\<forall>r \<in> set (concat (map (block d) sq)).
          (row_bookmarkTags r \<noteq> None \<longrightarrow> row_tagsOnBookmarks r \<noteq> None) \<and>
          bookmark_id (row_bookmarksSq r) \<notin> set objectPrototypeNames"
    using assms(2) by (auto dest: block_rows)
  from reduceRows_ok [OF this, of "[]"] obtain acc where
    run: "reduceRows [] (concat (map (block d) sq)) = Inr acc" and
    keys: "keysRest acc = addNew (keysRest []) (map row_bookmarksSq (concat (map (block d) sq)))"
    by blast
  from assms(1) have "addNew [] (map row_bookmarksSq (concat (map (block d) sq))) =
      [] @ map (\<lambda>b. (bookmark_id b, b)) sq"
    by (intro addNew_blocks) simp_all
  with keys have kr: "keysRest acc = map (\<lambda>b. (bookmark_id b, b)) sq"
    by (simp add: keysRest_def)
  then have "map snd (keysRest acc) = sq" and "map fst (keysRest acc) = map bookmark_id sq"
    by (simp_all add: comp_def)
  moreover have "map snd (keysRest acc) = map rest (map snd acc)"
    by (simp add: keysRest_def comp_def case_prod_beta)
  moreover have "map fst (keysRest acc) = map fst acc"
    by (simp add: keysRest_def comp_def case_prod_beta)
  ultimately show ?thesis using run by auto
qed

lemma objectValues_plain:
  assumes "\<forall>k \<in> set (map fst acc). \<not> isArrayIndex k"
  shows "objectValues acc = map snd acc"
proof -
  from assms have "filter (\<lambda>e. isArrayIndex (fst e)) acc = []"
    and "filter (\<lambda>e. \<not> isArrayIndex (fst e)) acc = acc"
    by (auto simp: filter_empty_conv filter_id_conv)
  then show ?thesis by (simp add: objectValues_def)
qed

subsection \<open>The page\<close>

lemma matching_sorted: "sorted (map (\<lambda>b. - bookmark_createdAt b) (matching uid input d))"
  by (simp add: matching_def orderByDesc_def)

lemma matching_set:
  "set (matching uid input d) = {b \<in> set (bookmarks d). bookmarksWhere uid input d b}"
  by (simp add: matching_def orderByDesc_def)

lemma matching_distinct:
  assumes "distinct (map bookmark_id (bookmarks d))"
  shows "distinct (map bookmark_id (matching uid input d))"
proof -
  from assms have "distinct (map bookmark_id (filter (bookmarksWhere uid input d) (bookmarks d)))"
    by (rule distinct_map_filter)
  then show ?thesis
    by (simp add: matching_def orderByDesc_def distinct_map)
qed

lemma matching_no_ids: "req_ids input = Some [] \<Longrightarrow> matching uid input d = []"
  by (simp add: matching_def orderByDesc_def bookmarksWhere_def)

lemma bookmarksSq_matching: "bookmarksSq uid limit input d = take (limit + 1) (matching uid input d)"
  by (simp add: bookmarksSq_def matching_def)

lemma getBookmarks_page:
  assumes user: "ctx_user ctx = Some uid"
    and pk: "distinct (map bookmark_id (bookmarks (db w)))"
    and plain: "list_all (\<lambda>b. plainKey (bookmark_id b)) (bookmarks (db w))"
  shows "\<exists>r. getBookmarks ctx env input w = (Inr r, w) \<and>
           map rest (resp_bookmarks r) =
             take (effectiveLimit env input) (matching uid input (db w)) \<and>
           nextCursor r =
             (if effectiveLimit env input < length (matching uid input (db w))
              then Some (bookmark_createdAt (matching uid input (db w) ! effectiveLimit env input))
              else None)"
proof (cases "req_ids input = Some []")
  case True
  then show ?thesis
    by (simp add: getBookmarks_def authedProcedure_user [OF user] matching_no_ids)
next
  case False
  let ?L = "effectiveLimit env input"
  let ?M = "matching uid input (db w)"
  let ?sq = "take (?L + 1) ?M"
  have early: "\<not> (case req_ids input of Some ids \<Rightarrow> length ids = 0 | None \<Rightarrow> False)"
    using False by (auto split: option.splits)
  have "sorted (map (\<lambda>b. - bookmark_createdAt b) ?sq)"
    using matching_sorted [of uid input "db w"]
    by (simp add: take_map [symmetric] sorted_wrt_take)
  then have rows: "selectJoined (db w) ?sq = concat (map (block (db w)) ?sq)"
    by (rule selectJoined_blocks)
  have "distinct (map bookmark_id ?sq)"
    using matching_distinct [OF pk, of uid input]
    by (simp add: take_map [symmetric] distinct_take)
  moreover have sub: "set ?sq \<subseteq> set (bookmarks (db w))"
    by (auto simp: matching_set dest: in_set_takeD)
  with plain have "\<forall>b \<in> set ?sq. bookmark_id b \<notin> set objectPrototypeNames"
    by (auto simp: list_all_iff plainKey_def)
  ultimately obtain acc where
    run: "reduceRows [] (concat (map (block (db w)) ?sq)) = Inr acc" and
    keys: "map fst acc = map bookmark_id ?sq" and
    arr: "map rest (map snd acc) = ?sq"
    using reduce_selected [of ?sq "db w"] by blast
  from sub plain have "\<forall>k \<in> set (map fst acc). \<not> isArrayIndex k"
    unfolding keys by (auto simp: list_all_iff plainKey_def)
  then have vals: "objectValues acc = map snd acc"
    by (rule objectValues_plain)
  from arr have len: "length (map snd acc) = length ?sq"
    by (metis length_map)
  show ?thesis
  proof (cases "?L < length ?M")
    case True
    then have lensq: "length ?sq = ?L + 1" by simp
    with len have more: "length (map snd acc) > ?L" by simp
    then have ne: "map snd acc \<noteq> []" by auto
    have page: "map rest (butlast (map snd acc)) = take ?L ?M"
    proof -
      have "map rest (butlast (map snd acc)) = butlast ?sq"
        using arr by (simp add: map_butlast)
      also have "\<dots> = take ?L ?M"
        using True by (simp add: butlast_take)
      finally show ?thesis .
    qed
    have "rest (last (map snd acc)) = last ?sq"
      using arr ne by (metis last_map)
    also have "\<dots> = ?M ! ?L"
      using True by (simp add: take_Suc_conv_app_nth)
    finally have nxt: "rest (last (map snd acc)) = ?M ! ?L" .
    have nextItem: "(case rev (map snd acc) of
                       [] \<Rightarrow> None
                     | nextItem # _ \<Rightarrow> Some (bookmark_createdAt (rest nextItem))) =
                    Some (bookmark_createdAt (?M ! ?L))"
      using ne nxt by (cases "map snd acc" rule: rev_cases) auto
    from True more page early rows run show ?thesis
      by (simp add: getBookmarks_def authedProcedure_user [OF user] bookmarksSq_matching Let_def
          nextItem vals)
  next
    case False
    then have all: "?sq = ?M" by simp
    with len False have few: "\<not> length (map snd acc) > ?L" by simp
    from arr all False have "map rest (map snd acc) = take ?L ?M" by simp
    with False few early rows run show ?thesis
      by (simp add: getBookmarks_def authedProcedure_user [OF user] bookmarksSq_matching Let_def
          vals)
  qed
qed

lemma ex_page:
  "getBookmarks ex_ctx ex_env
     \<lparr>req_ids = None, req_archived = None, req_favourited = None, req_tagId = None,
      req_listId = None, req_limit = Some 1, req_cursor = Some 20\<rparr> ex_world =
   (Inr \<lparr>resp_bookmarks =
           [\<lparr>rest = ex_bookmark ''b2'' ''alice'' 20,
             content = AssetContent Image ''a1'', tags = []\<rparr>],
         nextCursor = Some 10\<rparr>, ex_world)"
  by code_simp

lemma ex_distinct: "distinct (map bookmark_id (bookmarks (db ex_world)))"
  by code_simp

lemma ex_plain: "list_all (\<lambda>b. plainKey (bookmark_id b)) (bookmarks (db ex_world))"
  by code_simp

text \<open>
  C8, as amended. In a store whose bookmark ids are distinct (the primary key) and are
  plain keys (no array index, no name of \<open>Object.prototype\<close>), a getBookmarks call
  succeeds without changing the world. With n the limit of the request, or
  DEFAULT_NUM_BOOKMARKS_PER_PAGE when the limit is not set or is 0: at most n bookmarks
  are returned (n of them, or all the matching ones when fewer match), in descending
  createdAt order; with a cursor, every returned bookmark has createdAt at most the
  cursor; the returned bookmarks are matching bookmarks of the store and their createdAt
  values are the first n of the matching bookmarks' values, newest first; and nextCursor
  is the createdAt that follows them when more than n bookmarks match, and null
  otherwise. Nothing here depends on the order of bookmarks of equal createdAt.
\<close>

theorem getBookmarks_page_properties:
  assumes user: "ctx_user ctx = Some uid"
    and pk: "distinct (map bookmark_id (bookmarks (db w)))"
    and plain: "list_all (\<lambda>b. plainKey (bookmark_id b)) (bookmarks (db w))"
  shows "\<exists>r. getBookmarks ctx env input w = (Inr r, w) \<and>
           length (resp_bookmarks r) \<le> effectiveLimit env input \<and>
           length (resp_bookmarks r) =
             min (effectiveLimit env input) (length (matching uid input (db w))) \<and>
           sorted_wrt (\<lambda>x y. bookmark_createdAt (rest x) \<ge> bookmark_createdAt (rest y))
             (resp_bookmarks r) \<and>
           (\<forall>c. req_cursor input = Some c \<longrightarrow>
              (\<forall>z \<in> set (resp_bookmarks r). bookmark_createdAt (rest z) \<le> c)) \<and>
           set (map rest (resp_bookmarks r)) \<subseteq> set (matching uid input (db w)) \<and>
           map (\<lambda>z. bookmark_createdAt (rest z)) (resp_bookmarks r) =
             take (effectiveLimit env input)
               (map bookmark_createdAt (matching uid input (db w))) \<and>
           nextCursor r =
             (if effectiveLimit env input < length (matching uid input (db w))
              then Some (map bookmark_createdAt (matching uid input (db w)) !
                           effectiveLimit env input)
              else None)"
proof -
  let ?L = "effectiveLimit env input"
  let ?M = "matching uid input (db w)"
  from getBookmarks_page [OF user pk plain, of env input] obtain r where
    run: "getBookmarks ctx env input w = (Inr r, w)" and
    page: "map rest (resp_bookmarks r) = take ?L ?M" and
    nxt: "nextCursor r = (if ?L < length ?M then Some (bookmark_createdAt (?M ! ?L)) else None)"
    by blast
  from page have "length (resp_bookmarks r) = length (take ?L ?M)"
    by (metis length_map)
  then have len: "length (resp_bookmarks r) = min ?L (length ?M)" by simp
  then have short: "length (resp_bookmarks r) \<le> ?L" by simp
  have "sorted_wrt (\<lambda>x y. bookmark_createdAt x \<ge> bookmark_createdAt y) ?M"
    using matching_sorted [of uid input "db w"] by (simp add: sorted_map)
  then have "sorted_wrt (\<lambda>x y. bookmark_createdAt x \<ge> bookmark_createdAt y)
      (map rest (resp_bookmarks r))"
    unfolding page by (rule sorted_wrt_take)
  then have desc: "sorted_wrt (\<lambda>x y. bookmark_createdAt (rest x) \<ge> bookmark_createdAt (rest y))
      (resp_bookmarks r)"
    by (simp add: sorted_wrt_map)
  from page have sub: "set (map rest (resp_bookmarks r)) \<subseteq> set ?M"
    by (simp add: set_take_subset)
  have cursor: "\<forall>c. req_cursor input = Some c \<longrightarrow>
              (\<forall>z \<in> set (resp_bookmarks r). bookmark_createdAt (rest z) \<le> c)"
  proof (intro allI impI ballI)
    fix c z assume c: "req_cursor input = Some c" and z: "z \<in> set (resp_bookmarks r)"
    from z have "rest z \<in> set (map rest (resp_bookmarks r))" by simp
    with sub have "rest z \<in> set ?M" by blast
    then have "bookmarksWhere uid input (db w) (rest z)" by (simp add: matching_set)
    with c show "bookmark_createdAt (rest z) \<le> c" by (simp add: bookmarksWhere_def)
  qed
  have "map (\<lambda>z. bookmark_createdAt (rest z)) (resp_bookmarks r) =
      map bookmark_createdAt (map rest (resp_bookmarks r))"
    by (simp add: comp_def)
  then have times: "map (\<lambda>z. bookmark_createdAt (rest z)) (resp_bookmarks r) =
      take ?L (map bookmark_createdAt ?M)"
    unfolding page by (simp add: take_map)
  from nxt have nxt': "nextCursor r =
      (if ?L < length ?M then Some (map bookmark_createdAt ?M ! ?L) else None)"
    by simp
  from run short len desc cursor sub times nxt' show ?thesis by blast
qed

theorem getBookmarks_page_properties_witness:
  "getBookmarks ex_ctx ex_env
     \<lparr>req_ids = None, req_archived = None, req_favourited = None, req_tagId = None,
      req_listId = None, req_limit = Some 1, req_cursor = Some 20\<rparr> ex_world =
   (Inr \<lparr>resp_bookmarks =
           [\<lparr>rest = ex_bookmark ''b2'' ''alice'' 20,
             content = AssetContent Image ''a1'', tags = []\<rparr>],
         nextCursor = Some 10\<rparr>, ex_world) \<and>
   distinct (map bookmark_id (bookmarks (db ex_world))) \<and>
   list_all (\<lambda>b. plainKey (bookmark_id b)) (bookmarks (db ex_world))"
  unfolding ex_page
  using getBookmarks_page_properties [OF ex_user ex_distinct ex_plain, of ex_env
      "\<lparr>req_ids = None, req_archived = None, req_favourited = None, req_tagId = None,
        req_listId = None, req_limit = Some 1, req_cursor = Some 20\<rparr>"]
    ex_distinct ex_plain
  by simp

text \<open>
  The claim C8 as it was stated bounds the page by the limit n for every n and orders it
  by descending createdAt in every store. On the small store, where the default page size
  is 2, a request with the limit 0 is answered with two bookmarks and a next cursor: the
  limit 0 is read as no limit given. On the store whose bookmark ids are the numerals 1, 2
  and 3, created at 10, 20 and 30, a request with the limit 2 is answered with the
  bookmarks 1 and 2, oldest first, and the next cursor 30: \<open>Object.values\<close> lists numeral
  keys in numeric order.
\<close>

theorem page_not_bounded_nor_ordered:
  "map (\<lambda>z. bookmark_id (rest z))
     (resp_bookmarks (projr (fst (getBookmarks ex_ctx ex_env
        \<lparr>req_ids = None, req_archived = None, req_favourited = None, req_tagId = None,
         req_listId = None, req_limit = Some 0, req_cursor = None\<rparr> ex_world)))) =
     [''b4'', ''b2''] \<and>
   nextCursor (projr (fst (getBookmarks ex_ctx ex_env
        \<lparr>req_ids = None, req_archived = None, req_favourited = None, req_tagId = None,
         req_listId = None, req_limit = Some 0, req_cursor = None\<rparr> ex_world))) = Some 10 \<and>
   map (\<lambda>z. (bookmark_id (rest z), bookmark_createdAt (rest z)))
     (resp_bookmarks (projr (fst (getBookmarks ex_ctx ex_env
        \<lparr>req_ids = None, req_archived = None, req_favourited = None, req_tagId = None,
         req_listId = None, req_limit = Some 2, req_cursor = None\<rparr> ex_numbered)))) =
     [(''1'', 10), (''2'', 20)] \<and>
   nextCursor (projr (fst (getBookmarks ex_ctx ex_env
        \<lparr>req_ids = None, req_archived = None, req_favourited = None, req_tagId = None,
         req_listId = None, req_limit = Some 2, req_cursor = None\<rparr> ex_numbered))) = Some 30"
  by code_simp

end
